theory Spec2Isabelle
  imports Complex_Main
begin

section \<open>Values, responses and the libraries the handlers call\<close>

text \<open>
  The repository is an Express / Next.js backend. Two implementations of the same
  domain live side by side:
  \<^item> the \<^emph>\<open>route\<close> implementation: \<^verbatim>\<open>app/api/register/route.js\<close>,
    \<^verbatim>\<open>app/api/login/route.js\<close>, the cart router, \<^verbatim>\<open>middleware/authMiddleware.js\<close> and the
    \<^verbatim>\<open>models/User.js\<close> schema with the embedded cart;
  \<^item> the \<^emph>\<open>server\<close> implementation: the monolithic server file with its own
    \<^verbatim>\<open>userSchema\<close>, \<^verbatim>\<open>/api/register\<close> and \<^verbatim>\<open>/api/login\<close>.

  Handlers are modelled as functions from the store and the request to the new store and
  the response. What a handler reads from its surroundings is an argument: the clock
  \<open>now\<close> (seconds), \<^verbatim>\<open>process.env.JWT_SECRET\<close> (\<open>None\<close> when unset), the salt that
  bcrypt draws and the \<^verbatim>\<open>_id\<close> that Mongoose gives a new document. The libraries
  \<^verbatim>\<open>jsonwebtoken\<close>, \<^verbatim>\<open>bcryptjs\<close> and \<^verbatim>\<open>stripe\<close> are not part of the repository; the
  handlers take their functions as arguments and the theorems say which property of a
  library they rely on. Store calls are taken to succeed (no connection faults).
  Strings are byte strings; the character classes of the regular expressions are the
  ASCII ones.
\<close>

type_synonym objectid = nat

datatype json =
    JNull
  | JBool bool
  | JNum rat
  | JStr string
  | JOid objectid
  | JArr "json list"
  | JObj "(string \<times> json) list"

record response =
  status :: nat
  body :: json

text \<open>A thrown JavaScript \<^verbatim>\<open>Error\<close> is its message.\<close>

type_synonym js_error = string

text \<open>
  The payload objects the handlers sign: \<^verbatim>\<open>{ id: user._id }\<close> in \<^verbatim>\<open>login/route.js\<close>,
  \<^verbatim>\<open>{ userId: user._id }\<close> everywhere else. \<open>payload_id\<close> is the property read
  \<^verbatim>\<open>decoded.id\<close>, \<open>None\<close> standing for \<^verbatim>\<open>undefined\<close>.
\<close>

datatype payload = Payload_id objectid | Payload_userId objectid

fun payload_id :: "payload \<Rightarrow> objectid option" where
  "payload_id (Payload_id i) = Some i"
| "payload_id (Payload_userId i) = None"

text \<open>
  \<^verbatim>\<open>jwt.sign(payload, secret, { expiresIn })\<close> at clock \<open>now\<close>, and
  \<^verbatim>\<open>jwt.verify(token, secret)\<close> at clock \<open>now\<close>; both throw.
\<close>

type_synonym jwt_sign = "payload \<Rightarrow> string option \<Rightarrow> nat \<Rightarrow> nat \<Rightarrow> js_error + string"
type_synonym jwt_verify = "string \<Rightarrow> string option \<Rightarrow> nat \<Rightarrow> js_error + payload"

text \<open>
  What the theorems ask of \<^verbatim>\<open>jsonwebtoken\<close>: a token is a non-empty string without a
  space (three base64url segments joined by dots), and a token signed at \<open>t0\<close> with
  lifetime \<open>ttl\<close> verifies under the same secret to the signed payload strictly before
  \<open>t0 + ttl\<close> and throws from then on.
\<close>

definition jwt_contract :: "jwt_sign \<Rightarrow> jwt_verify \<Rightarrow> bool" where
  "jwt_contract sign verify \<longleftrightarrow>
     (\<forall>p secret ttl t0 tok. sign p secret ttl t0 = Inr tok \<longrightarrow>
        tok \<noteq> [] \<and> CHR '' '' \<notin> set tok \<and>
        (\<forall>t. if t < t0 + ttl then verify tok secret t = Inr p else isl (verify tok secret t)))"

text \<open>
  \<^verbatim>\<open>bcrypt.hash(password, salt)\<close> with the salt made explicit, and
  \<^verbatim>\<open>bcrypt.compare(candidate, hash)\<close> on two strings. What the theorems ask of
  \<^verbatim>\<open>bcryptjs\<close>: a hash is not empty (it has 60 characters), it is not the password it was
  made from, and the password compares equal to it.
\<close>

type_synonym bcrypt_hash = "string \<Rightarrow> string \<Rightarrow> string"
type_synonym bcrypt_compare = "string \<Rightarrow> string \<Rightarrow> bool"

definition bcrypt_contract :: "bcrypt_hash \<Rightarrow> bcrypt_compare \<Rightarrow> bool" where
  "bcrypt_contract hash compare \<longleftrightarrow>
     (\<forall>p salt. hash p salt \<noteq> [] \<and> hash p salt \<noteq> p \<and> compare p (hash p salt))"

text \<open>
  bcryptjs rejects with \<^verbatim>\<open>Illegal arguments\<close> when either argument of \<^verbatim>\<open>compare\<close> is not
  a string; \<open>None\<close> is \<^verbatim>\<open>undefined\<close>.
\<close>

fun bcrypt_compare_js :: "bcrypt_compare \<Rightarrow> string option \<Rightarrow> string option \<Rightarrow> js_error + bool" where
  "bcrypt_compare_js compare (Some s) (Some h) = Inr (compare s h)"
| "bcrypt_compare_js compare None (Some h) = Inl ''Illegal arguments: undefined, string''"
| "bcrypt_compare_js compare (Some s) None = Inl ''Illegal arguments: string, undefined''"
| "bcrypt_compare_js compare None None = Inl ''Illegal arguments: undefined, undefined''"

text \<open>JavaScript truthiness of a string-valued field: \<^verbatim>\<open>undefined\<close> and \<^verbatim>\<open>''\<close> are falsy.\<close>

fun falsy :: "string option \<Rightarrow> bool" where
  "falsy None = True"
| "falsy (Some s) = (s = [])"

subsection \<open>A reference instance of the libraries\<close>

text \<open>
  A small instance of the two libraries, used to run the handlers on concrete requests
  and to show that the contracts above can be met. A token is the tag of the payload,
  the identity and the expiry in unary, and the secret with its spaces replaced,
  separated by dots. It has none of the cryptography; only the interface matters here.
\<close>

definition jwt_signature_ref :: "string \<Rightarrow> string" where
  "jwt_signature_ref s = map (\<lambda>c. if c = CHR '' '' then CHR ''_'' else c) s"

definition jwt_encode_ref :: "payload \<Rightarrow> nat \<Rightarrow> string \<Rightarrow> string" where
  "jwt_encode_ref p e s =
     (case p of
        Payload_id i \<Rightarrow>
          CHR ''i'' # replicate i CHR ''1'' @ CHR ''.'' # replicate e CHR ''1'' @ CHR ''.'' # jwt_signature_ref s
      | Payload_userId i \<Rightarrow>
          CHR ''u'' # replicate i CHR ''1'' @ CHR ''.'' # replicate e CHR ''1'' @ CHR ''.'' # jwt_signature_ref s)"

definition jwt_decode_ref :: "string \<Rightarrow> (payload \<times> nat \<times> string) option" where
  "jwt_decode_ref t =
     (case t of
        [] \<Rightarrow> None
      | k # r \<Rightarrow>
          (let r1 = tl (dropWhile (\<lambda>c. c = CHR ''1'') r);
               i = length (takeWhile (\<lambda>c. c = CHR ''1'') r);
               e = length (takeWhile (\<lambda>c. c = CHR ''1'') r1);
               s = tl (dropWhile (\<lambda>c. c = CHR ''1'') r1)
           in if k = CHR ''i'' then Some (Payload_id i, e, s)
              else if k = CHR ''u'' then Some (Payload_userId i, e, s)
              else None))"

definition jwt_sign_ref :: jwt_sign where
  "jwt_sign_ref p secret ttl now =
     (case secret of
        None \<Rightarrow> Inl ''secretOrPrivateKey must have a value''
      | Some s \<Rightarrow>
          if s = [] then Inl ''secretOrPrivateKey must have a value''
          else Inr (jwt_encode_ref p (now + ttl) s))"

definition jwt_verify_ref :: jwt_verify where
  "jwt_verify_ref tok secret now =
     (case secret of
        None \<Rightarrow> Inl ''secret or public key must be provided''
      | Some s \<Rightarrow>
          (case jwt_decode_ref tok of
             None \<Rightarrow> Inl ''jwt malformed''
           | Some (p, e, s') \<Rightarrow>
               if s' \<noteq> jwt_signature_ref s then Inl ''invalid signature''
               else if e \<le> now then Inl ''jwt expired''
               else Inr p))"

definition bcrypt_hash_ref :: bcrypt_hash where
  "bcrypt_hash_ref p salt = CHR ''$'' # salt @ CHR ''$'' # p"

definition bcrypt_compare_ref :: bcrypt_compare where
  "bcrypt_compare_ref s h \<longleftrightarrow> length s < length h \<and> drop (length h - length s) h = s"

section \<open>The authorization middleware\<close>

text \<open>
  \<^verbatim>\<open>String.prototype.split\<close> with a one-character separator: every occurrence of the
  separator ends a piece, and the empty string splits into one empty piece.
\<close>

fun split_on :: "char \<Rightarrow> string \<Rightarrow> string list" where
  "split_on sep [] = [[]]"
| "split_on sep (c # cs) =
     (if c = sep then [] # split_on sep cs
      else (case split_on sep cs of
              [] \<Rightarrow> [[c]]
            | p # ps \<Rightarrow> (c # p) # ps))"

text \<open>Indexing a JavaScript array: out of range is \<^verbatim>\<open>undefined\<close>.\<close>

definition at_index :: "'a list \<Rightarrow> nat \<Rightarrow> 'a option" where
  "at_index xs i = (if i < length xs then Some (xs ! i) else None)"

record request =
  authorization :: "string option"
  userId :: "objectid option"

definition no_token :: response where
  "no_token = \<lparr>status = 401, body = JObj [(''message'', JStr ''No token, authorization denied'')]\<rparr>"

definition token_not_valid :: response where
  "token_not_valid = \<lparr>status = 401, body = JObj [(''message'', JStr ''Token is not valid'')]\<rparr>"

text \<open>
  \<^verbatim>\<open>authMiddleware\<close>: \<open>Inl\<close> is the response it sends itself, \<open>Inr\<close> the request it hands
  to \<^verbatim>\<open>next()\<close> with \<^verbatim>\<open>req.userId\<close> attached.
\<close>

definition authMiddleware :: "jwt_verify \<Rightarrow> string option \<Rightarrow> nat \<Rightarrow> request \<Rightarrow> response + request" where
  "authMiddleware verify JWT_SECRET now req =
     (let token = (case authorization req of
                     None \<Rightarrow> None
                   | Some h \<Rightarrow> at_index (split_on CHR '' '' h) 1)
      in if falsy token then Inl no_token
         else (case verify (the token) JWT_SECRET now of
                 Inr decoded \<Rightarrow> Inr (req\<lparr>userId := payload_id decoded\<rparr>)
               | Inl err \<Rightarrow> Inl token_not_valid))"

section \<open>The payment endpoint\<close>

text \<open>JavaScript truthiness of a parsed JSON value; \<open>None\<close> is \<^verbatim>\<open>undefined\<close>.\<close>

fun truthy :: "json option \<Rightarrow> bool" where
  "truthy None = False"
| "truthy (Some JNull) = False"
| "truthy (Some (JBool b)) = b"
| "truthy (Some (JNum n)) = (n \<noteq> 0)"
| "truthy (Some (JStr s)) = (s \<noteq> [])"
| "truthy (Some (JOid i)) = True"
| "truthy (Some (JArr xs)) = True"
| "truthy (Some (JObj kvs)) = True"

text \<open>
  Reading one of the properties \<^verbatim>\<open>token\<close>, \<^verbatim>\<open>amount\<close>, \<^verbatim>\<open>id\<close> of a value that is not
  \<^verbatim>\<open>null\<close>: an object has it or not; a number, string, boolean or array has none of them.
\<close>

fun get_prop :: "json \<Rightarrow> string \<Rightarrow> json option" where
  "get_prop (JObj kvs) k = map_of kvs k"
| "get_prop v k = None"

text \<open>\<^verbatim>\<open>const { token, amount } = body\<close>: destructuring \<^verbatim>\<open>null\<close> throws a TypeError.\<close>

definition destructure_body :: "json \<Rightarrow> js_error + (json option \<times> json option)" where
  "destructure_body b =
     (if b = JNull then Inl ''Cannot destructure property 'token' of 'body' as it is null.''
      else Inr (get_prop b ''token'', get_prop b ''amount''))"

record charge_params =
  ch_amount :: json
  ch_currency :: string
  ch_source :: "json option"
  ch_description :: string

definition missing_token_or_amount :: response where
  "missing_token_or_amount =
     \<lparr>status = 400, body = JObj [(''success'', JBool False), (''message'', JStr ''Missing token or amount.'')]\<rparr>"

definition stripe_error :: "js_error \<Rightarrow> response" where
  "stripe_error message =
     \<lparr>status = 500, body = JObj [(''success'', JBool False), (''message'', JStr message)]\<rparr>"

text \<open>
  \<^verbatim>\<open>POST\<close> of \<^verbatim>\<open>app/api/payment/route.js\<close>. \<open>request_json\<close> is the outcome of
  \<^verbatim>\<open>await request.json()\<close>, \<open>stripe_charges_create\<close> the processor call, which returns the
  id of the charge or throws. The second component lists the calls made to the
  processor.
\<close>

definition payment_POST ::
  "(charge_params \<Rightarrow> js_error + string) \<Rightarrow> js_error + json \<Rightarrow> response \<times> charge_params list" where
  "payment_POST stripe_charges_create request_json =
     (case request_json of
        Inl err \<Rightarrow> (stripe_error err, [])
      | Inr b \<Rightarrow>
          (case destructure_body b of
             Inl err \<Rightarrow> (stripe_error err, [])
           | Inr (token, amount) \<Rightarrow>
               if \<not> truthy token \<or> \<not> truthy amount then (missing_token_or_amount, [])
               else
                 (let params = \<lparr>ch_amount = the amount, ch_currency = ''inr'',
                                ch_source = get_prop (the token) ''id'',
                                ch_description = ''Supermarket payment''\<rparr>
                  in case stripe_charges_create params of
                       Inl err \<Rightarrow> (stripe_error err, [params])
                     | Inr charge_id \<Rightarrow>
                         (\<lparr>status = 200,
                           body = JObj [(''success'', JBool True), (''data'', JStr charge_id)]\<rparr>,
                          [params]))))"

section \<open>The route implementation: users with an embedded cart\<close>

text \<open>\<^verbatim>\<open>models/Product.js\<close>.\<close>

record product =
  p_id :: objectid
  p_name :: string
  p_description :: string
  p_price :: rat
  p_image :: string
  p_stock :: rat

text \<open>
  \<^verbatim>\<open>models/User.js\<close>. A line item of the cart is a subdocument with its own \<^verbatim>\<open>_id\<close>; a
  field that a candidate document does not carry is \<open>None\<close>.
\<close>

record cart_item =
  item_id :: objectid
  productId :: "objectid option"
  quantity :: "rat option"

record user =
  u_id :: objectid
  u_name :: string
  u_email :: string
  u_password :: string
  u_cart :: "cart_item list"

text \<open>
  Schema validation of a line item of \<^verbatim>\<open>UserSchema.cart\<close>: \<^verbatim>\<open>productId\<close> is required,
  \<^verbatim>\<open>quantity\<close> is required with \<^verbatim>\<open>min: 1\<close>.
\<close>

definition validate_cart_item :: "cart_item \<Rightarrow> bool" where
  "validate_cart_item i \<longleftrightarrow>
     productId i \<noteq> None \<and> (case quantity i of None \<Rightarrow> False | Some q \<Rightarrow> 1 \<le> q)"

text \<open>
  Schema validation of a user: \<^verbatim>\<open>name\<close>, \<^verbatim>\<open>email\<close> and \<^verbatim>\<open>password\<close> are required (for a
  string, not empty), and every line item of the cart is valid.
\<close>

definition validate_user :: "user \<Rightarrow> bool" where
  "validate_user u \<longleftrightarrow>
     u_name u \<noteq> [] \<and> u_email u \<noteq> [] \<and> u_password u \<noteq> [] \<and> list_all validate_cart_item (u_cart u)"

text \<open>
  \<^verbatim>\<open>cartSchema\<close> of \<^verbatim>\<open>models/Cart.js\<close>, the standalone cart document: every field is
  required, nothing else is asked of \<^verbatim>\<open>quantity\<close>.
\<close>

record cart_doc_item =
  cd_productId :: "objectid option"
  cd_quantity :: "rat option"
  cd_price :: "rat option"

record cart_doc =
  cd_userId :: "objectid option"
  cd_items :: "cart_doc_item list"
  cd_totalAmount :: "rat option"

definition validate_cart_doc_item :: "cart_doc_item \<Rightarrow> bool" where
  "validate_cart_doc_item i \<longleftrightarrow> cd_productId i \<noteq> None \<and> cd_quantity i \<noteq> None \<and> cd_price i \<noteq> None"

definition validate_cart_doc :: "cart_doc \<Rightarrow> bool" where
  "validate_cart_doc c \<longleftrightarrow>
     cd_userId c \<noteq> None \<and> list_all validate_cart_doc_item (cd_items c) \<and> cd_totalAmount c \<noteq> None"

text \<open>
  The collection is the list of its documents. \<^verbatim>\<open>User.findById(id)\<close> finds nothing for
  \<^verbatim>\<open>undefined\<close>; \<^verbatim>\<open>User.findOne({ email })\<close> matches the email as given (this schema has
  no setter on it) and finds nothing for \<^verbatim>\<open>undefined\<close>.
\<close>

fun findById :: "user list \<Rightarrow> objectid option \<Rightarrow> user option" where
  "findById db None = None"
| "findById db (Some i) = find (\<lambda>u. u_id u = i) db"

fun findOne_email :: "user list \<Rightarrow> string option \<Rightarrow> user option" where
  "findOne_email db None = None"
| "findOne_email db (Some e) = find (\<lambda>u. u_email u = e) db"

text \<open>
  \<^verbatim>\<open>newUser.save()\<close>: validation, then the insert, which the unique index on \<^verbatim>\<open>email\<close>
  refuses for an email already in the collection.
\<close>

definition save_user :: "user list \<Rightarrow> user \<Rightarrow> js_error + user list" where
  "save_user db u =
     (if \<not> validate_user u then Inl ''User validation failed''
      else if list_ex (\<lambda>v. u_email v = u_email u) db then Inl ''E11000 duplicate key error collection''
      else Inr (db @ [u]))"

subsection \<open>The cart router\<close>

definition product_json :: "product \<Rightarrow> json" where
  "product_json p =
     JObj [(''_id'', JOid (p_id p)), (''name'', JStr (p_name p)),
           (''description'', JStr (p_description p)), (''price'', JNum (p_price p)),
           (''image'', JStr (p_image p)), (''stock'', JNum (p_stock p))]"

text \<open>
  \<^verbatim>\<open>populate('cart.productId')\<close> puts the product document in the place of its id, and
  \<^verbatim>\<open>null\<close> where the catalog has no such product.
\<close>

definition populate :: "product list \<Rightarrow> objectid option \<Rightarrow> json" where
  "populate products pid =
     (case pid of
        None \<Rightarrow> JNull
      | Some i \<Rightarrow> (case find (\<lambda>p. p_id p = i) products of
                    None \<Rightarrow> JNull
                  | Some p \<Rightarrow> product_json p))"

definition cart_item_json :: "product list \<Rightarrow> cart_item \<Rightarrow> json" where
  "cart_item_json products i =
     JObj [(''productId'', populate products (productId i)),
           (''quantity'', (case quantity i of None \<Rightarrow> JNull | Some q \<Rightarrow> JNum q)),
           (''_id'', JOid (item_id i))]"

definition user_not_found :: response where
  "user_not_found = \<lparr>status = 404, body = JObj [(''message'', JStr ''User not found'')]\<rparr>"

text \<open>
  The handler of \<^verbatim>\<open>router.get('/')\<close>, run on the request that the middleware passed on. It
  returns the store as it leaves it, and the response.
\<close>

definition cart_handler :: "product list \<Rightarrow> user list \<Rightarrow> request \<Rightarrow> user list \<times> response" where
  "cart_handler products db req =
     (case findById db (userId req) of
        None \<Rightarrow> (db, user_not_found)
      | Some user \<Rightarrow> (db, \<lparr>status = 200, body = JArr (map (cart_item_json products) (u_cart user))\<rparr>))"

text \<open>\<^verbatim>\<open>router.get('/', authMiddleware, handler)\<close>.\<close>

definition cart_route ::
  "jwt_verify \<Rightarrow> string option \<Rightarrow> nat \<Rightarrow> product list \<Rightarrow> user list \<Rightarrow> request \<Rightarrow> user list \<times> response" where
  "cart_route verify JWT_SECRET now products db req =
     (case authMiddleware verify JWT_SECRET now req of
        Inl res \<Rightarrow> (db, res)
      | Inr req' \<Rightarrow> cart_handler products db req')"

subsection \<open>Registration and login\<close>

text \<open>
  The fields that the handlers read from a request body; each is a string or absent.
\<close>

record req_body =
  b_name :: "string option"
  b_phoneNumber :: "string option"
  b_city :: "string option"
  b_email :: "string option"
  b_password :: "string option"

definition message :: "nat \<Rightarrow> string \<Rightarrow> response" where
  "message code text = \<lparr>status = code, body = JObj [(''message'', JStr text)]\<rparr>"

text \<open>
  \<^verbatim>\<open>router.post('/register')\<close> of \<^verbatim>\<open>app/api/register/route.js\<close>. \<open>salt\<close> is the salt that
  \<^verbatim>\<open>bcrypt.hash(password, 10)\<close> draws, \<open>new_id\<close> the \<^verbatim>\<open>_id\<close> of the new document.
\<close>

definition register_route ::
  "jwt_sign \<Rightarrow> bcrypt_hash \<Rightarrow> string option \<Rightarrow> nat \<Rightarrow> string \<Rightarrow> objectid \<Rightarrow>
     user list \<Rightarrow> req_body \<Rightarrow> user list \<times> response" where
  "register_route sign hash JWT_SECRET now salt new_id db b =
     (if falsy (b_name b) \<or> falsy (b_email b) \<or> falsy (b_password b)
      then (db, message 400 ''All fields are required'')
      else
        (case findOne_email db (b_email b) of
           Some existingUser \<Rightarrow> (db, message 400 ''User already exists'')
         | None \<Rightarrow>
             (let hashedPassword = hash (the (b_password b)) salt;
                  newUser = \<lparr>u_id = new_id, u_name = the (b_name b), u_email = the (b_email b),
                             u_password = hashedPassword, u_cart = []\<rparr>
              in case save_user db newUser of
                   Inl error \<Rightarrow> (db, message 500 ''An error occurred. Please try again later.'')
                 | Inr db' \<Rightarrow>
                     (case sign (Payload_userId (u_id newUser)) JWT_SECRET 3600 now of
                        Inl error \<Rightarrow> (db', message 500 ''An error occurred. Please try again later.'')
                      | Inr token \<Rightarrow>
                          (db', \<lparr>status = 201,
                                 body = JObj [(''success'', JBool True), (''token'', JStr token)]\<rparr>)))))"

text \<open>\<^verbatim>\<open>POST\<close> of \<^verbatim>\<open>app/api/login/route.js\<close>; it reads the store and writes nothing.\<close>

definition login_route ::
  "jwt_sign \<Rightarrow> bcrypt_compare \<Rightarrow> string option \<Rightarrow> nat \<Rightarrow> user list \<Rightarrow> req_body \<Rightarrow> response" where
  "login_route sign compare JWT_SECRET now db b =
     (case findOne_email db (b_email b) of
        None \<Rightarrow> message 404 ''User not found''
      | Some user \<Rightarrow>
          (case bcrypt_compare_js compare (b_password b) (Some (u_password user)) of
             Inl error \<Rightarrow> \<lparr>status = 500, body = JObj [(''error'', JStr error)]\<rparr>
           | Inr passwordMatch \<Rightarrow>
               if \<not> passwordMatch then message 401 ''Invalid credentials''
               else
                 (case sign (Payload_id (u_id user)) JWT_SECRET 86400 now of
                    Inl error \<Rightarrow> \<lparr>status = 500, body = JObj [(''error'', JStr error)]\<rparr>
                  | Inr token \<Rightarrow> \<lparr>status = 200, body = JObj [(''token'', JStr token)]\<rparr>)))"

section \<open>The server implementation\<close>

text \<open>
  The server file does not parse as it stands: after the first
  \<^verbatim>\<open>res.status(201).json({ ... })\<close> of \<^verbatim>\<open>/api/register\<close> it carries the tail of a second copy
  of the handler, and it never requires \<^verbatim>\<open>jsonwebtoken\<close>. The definitions follow the text of
  the handlers up to that first response and take \<^verbatim>\<open>jwt.sign\<close> as an argument. With the
  file's own unbound \<^verbatim>\<open>jwt\<close> no call of \<^verbatim>\<open>jwt.sign\<close> returns, so what is proved of the server
  is about the part of a handler before that call: the checks, the duplicate test,
  \<^verbatim>\<open>save()\<close>, and the login with an email that is not in the store.
\<close>

subsection \<open>Strings and the regular expressions\<close>

text \<open>
  Strings are byte strings, and the string functions are the JavaScript ones on ASCII.
  The class \<^verbatim>\<open>\s\<close> and \<^verbatim>\<open>trim()\<close> take tab, line feed, vertical tab, form feed, carriage
  return and space; in JavaScript they also take U+00A0, U+FEFF, U+2028, U+2029 and the
  other space separators. \<^verbatim>\<open>toLowerCase()\<close> maps A to Z; in JavaScript it also maps the
  upper-case letters outside ASCII. \<^verbatim>\<open>length\<close> counts bytes; in JavaScript it counts UTF-16
  code units. On ASCII strings the functions below and the JavaScript ones agree.
\<close>

definition is_space :: "char \<Rightarrow> bool" where
  "is_space c \<longleftrightarrow> c \<in> set [CHR 0x09, CHR 0x0A, CHR 0x0B, CHR 0x0C, CHR 0x0D, CHR 0x20]"

definition is_digit :: "char \<Rightarrow> bool" where
  "is_digit c \<longleftrightarrow> 48 \<le> (of_char c :: nat) \<and> (of_char c :: nat) \<le> 57"

definition trim :: "string \<Rightarrow> string" where
  "trim s = rev (dropWhile is_space (rev (dropWhile is_space s)))"

definition toLowerCase :: "string \<Rightarrow> string" where
  "toLowerCase s =
     map (\<lambda>c. if 65 \<le> (of_char c :: nat) \<and> (of_char c :: nat) \<le> 90
               then char_of ((of_char c :: nat) + 32) else c) s"

text \<open>
  \<^verbatim>\<open>/^[^\s@]+@[^\s@]+\.[^\s@]+$/\<close>, the test of the handler: a non-empty run without space
  or \<^verbatim>\<open>@\<close>, an \<^verbatim>\<open>@\<close>, and a rest without space or \<^verbatim>\<open>@\<close> that has a dot neither first nor
  last.
\<close>

definition emailRegex_test :: "string \<Rightarrow> bool" where
  "emailRegex_test s \<longleftrightarrow>
     takeWhile (\<lambda>c. \<not> is_space c \<and> c \<noteq> CHR ''@'') s \<noteq> [] \<and>
     (case dropWhile (\<lambda>c. \<not> is_space c \<and> c \<noteq> CHR ''@'') s of
        [] \<Rightarrow> False
      | x # d \<Rightarrow> x = CHR ''@'' \<and> list_all (\<lambda>c. \<not> is_space c \<and> c \<noteq> CHR ''@'') d \<and>
                 CHR ''.'' \<in> set (butlast (tl d)))"

text \<open>\<^verbatim>\<open>/^[0-9]{10}$/\<close>, in the handler and in the schema.\<close>

definition phoneRegex_test :: "string \<Rightarrow> bool" where
  "phoneRegex_test s \<longleftrightarrow> length s = 10 \<and> list_all is_digit s"

text \<open>
  \<^verbatim>\<open>/^\S+@\S+\.\S+$/\<close>, the validator of the schema: no space anywhere, an \<^verbatim>\<open>@\<close> that is not
  first, and after it a dot neither first nor last. The leftmost such \<^verbatim>\<open>@\<close> leaves the
  longest rest, so it decides.
\<close>

definition schema_email_test :: "string \<Rightarrow> bool" where
  "schema_email_test s \<longleftrightarrow>
     list_all (\<lambda>c. \<not> is_space c) s \<and>
     (case dropWhile (\<lambda>c. c \<noteq> CHR ''@'') (tl s) of
        [] \<Rightarrow> False
      | x # d \<Rightarrow> CHR ''.'' \<in> set (butlast (tl d)))"

subsection \<open>The user schema of the server\<close>

text \<open>
  \<^verbatim>\<open>userSchema\<close>. The password is \<^verbatim>\<open>select: false\<close>: a document read by a query carries
  none, which is \<open>None\<close>.
\<close>

record server_user =
  s_id :: objectid
  s_name :: string
  s_phoneNumber :: string
  s_city :: string
  s_email :: string
  s_password :: "string option"
  s_createdAt :: nat

text \<open>
  \<^verbatim>\<open>new User({ name, phoneNumber, city, email, password })\<close>: the setters of the schema
  (\<^verbatim>\<open>trim\<close>, \<^verbatim>\<open>lowercase\<close>) run on the fields, \<^verbatim>\<open>createdAt\<close> defaults to the clock.
\<close>

definition new_User :: "objectid \<Rightarrow> nat \<Rightarrow> string \<Rightarrow> string \<Rightarrow> string \<Rightarrow> string \<Rightarrow> string \<Rightarrow> server_user" where
  "new_User new_id now name phoneNumber city email password =
     \<lparr>s_id = new_id, s_name = trim name, s_phoneNumber = trim phoneNumber, s_city = trim city,
      s_email = toLowerCase (trim email), s_password = Some password, s_createdAt = now\<rparr>"

text \<open>The validators of the schema, on the document as the setters left it.\<close>

definition validate_server_user :: "server_user \<Rightarrow> bool" where
  "validate_server_user u \<longleftrightarrow>
     2 \<le> length (s_name u) \<and>
     phoneRegex_test (s_phoneNumber u) \<and>
     2 \<le> length (s_city u) \<and>
     schema_email_test (s_email u) \<and>
     (case s_password u of None \<Rightarrow> False | Some p \<Rightarrow> 6 \<le> length p)"

text \<open>
  \<^verbatim>\<open>user.save()\<close> of a new document: validation, then the \<^verbatim>\<open>pre('save')\<close> hook, which
  hashes the password with the salt of \<^verbatim>\<open>bcrypt.genSalt(10)\<close>, then the insert, which the
  unique index on \<^verbatim>\<open>email\<close> refuses for an email already in the collection.
\<close>

definition server_save ::
  "bcrypt_hash \<Rightarrow> string \<Rightarrow> server_user list \<Rightarrow> server_user \<Rightarrow> js_error + server_user list" where
  "server_save hash salt db u =
     (if \<not> validate_server_user u then Inl ''User validation failed''
      else
        (let u' = u\<lparr>s_password := Some (hash (the (s_password u)) salt)\<rparr>
         in if list_ex (\<lambda>v. s_email v = s_email u') db
            then Inl ''E11000 duplicate key error collection''
            else Inr (db @ [u'])))"

text \<open>
  \<^verbatim>\<open>User.findOne({ email })\<close>: the filter is cast through the setters of the schema, so the
  email is trimmed and lowercased before it is matched; \<^verbatim>\<open>undefined\<close> matches nothing; the
  document comes without its password.
\<close>

fun server_findOne :: "server_user list \<Rightarrow> string option \<Rightarrow> server_user option" where
  "server_findOne db None = None"
| "server_findOne db (Some e) =
     map_option (\<lambda>u. u\<lparr>s_password := None\<rparr>) (find (\<lambda>u. s_email u = toLowerCase (trim e)) db)"

text \<open>\<^verbatim>\<open>userSchema.methods.comparePassword\<close>.\<close>

definition comparePassword :: "bcrypt_compare \<Rightarrow> server_user \<Rightarrow> string option \<Rightarrow> js_error + bool" where
  "comparePassword compare this candidatePassword =
     bcrypt_compare_js compare candidatePassword (s_password this)"

subsection \<open>Registration and login of the server\<close>

definition failure_message :: "nat \<Rightarrow> string \<Rightarrow> response" where
  "failure_message code text =
     \<lparr>status = code, body = JObj [(''success'', JBool False), (''message'', JStr text)]\<rparr>"

definition failure_error :: "nat \<Rightarrow> string \<Rightarrow> response" where
  "failure_error code text =
     \<lparr>status = code, body = JObj [(''success'', JBool False), (''error'', JStr text)]\<rparr>"

text \<open>\<^verbatim>\<open>process.env.JWT_SECRET || 'your-secret-key'\<close>.\<close>

definition secret_or_default :: "string option \<Rightarrow> string option" where
  "secret_or_default JWT_SECRET = (if falsy JWT_SECRET then Some ''your-secret-key'' else JWT_SECRET)"

text \<open>\<^verbatim>\<open>app.post('/api/register')\<close>.\<close>

definition server_register ::
  "jwt_sign \<Rightarrow> bcrypt_hash \<Rightarrow> string option \<Rightarrow> nat \<Rightarrow> string \<Rightarrow> objectid \<Rightarrow>
     server_user list \<Rightarrow> req_body \<Rightarrow> server_user list \<times> response" where
  "server_register sign hash JWT_SECRET now salt new_id db b =
     (if falsy (b_name b) \<or> falsy (b_phoneNumber b) \<or> falsy (b_city b) \<or> falsy (b_email b) \<or>
         falsy (b_password b)
      then (db, failure_message 400 ''All fields are required'')
      else if \<not> emailRegex_test (the (b_email b))
      then (db, failure_message 400 ''Please enter a valid email address'')
      else if \<not> phoneRegex_test (the (b_phoneNumber b))
      then (db, failure_message 400 ''Please enter a valid 10-digit phone number'')
      else if length (the (b_password b)) < 6
      then (db, failure_message 400 ''Password must be at least 6 characters long'')
      else
        (case server_findOne db (b_email b) of
           Some existingUser \<Rightarrow> (db, failure_message 400 ''Email already exists'')
         | None \<Rightarrow>
             (let user = new_User new_id now (the (b_name b)) (the (b_phoneNumber b))
                           (the (b_city b)) (the (b_email b)) (the (b_password b))
              in case server_save hash salt db user of
                   Inl error \<Rightarrow> (db, failure_error 500 ''Registration failed. Please try again later.'')
                 | Inr db' \<Rightarrow>
                     (case sign (Payload_userId (s_id user)) (secret_or_default JWT_SECRET) 3600 now of
                        Inl error \<Rightarrow>
                          (db', failure_error 500 ''Registration failed. Please try again later.'')
                      | Inr token \<Rightarrow>
                          (db',
                           \<lparr>status = 201,
                            body = JObj [(''success'', JBool True),
                                         (''message'', JStr ''Registration successful''),
                                         (''user'', JObj [(''id'', JOid (s_id user)),
                                                          (''name'', JStr (s_name user)),
                                                          (''email'', JStr (s_email user)),
                                                          (''city'', JStr (s_city user)),
                                                          (''phoneNumber'', JStr (s_phoneNumber user))]),
                                         (''token'', JStr token)]\<rparr>)))))"

text \<open>\<^verbatim>\<open>app.post('/api/login')\<close>; it reads the store and writes nothing.\<close>

definition server_login ::
  "jwt_sign \<Rightarrow> bcrypt_compare \<Rightarrow> string option \<Rightarrow> nat \<Rightarrow> server_user list \<Rightarrow> req_body \<Rightarrow> response" where
  "server_login sign compare JWT_SECRET now db b =
     (if falsy (b_email b) \<or> falsy (b_password b)
      then failure_error 400 ''Email and password are required''
      else
        (case server_findOne db (b_email b) of
           None \<Rightarrow> failure_error 401 ''Invalid email or password''
         | Some user \<Rightarrow>
             (case comparePassword compare user (b_password b) of
                Inl error \<Rightarrow> failure_error 500 ''Login failed. Please try again later.''
              | Inr isMatch \<Rightarrow>
                  if \<not> isMatch then failure_error 401 ''Invalid email or password''
                  else
                    (case sign (Payload_userId (s_id user)) JWT_SECRET 86400 now of
                       Inl error \<Rightarrow> failure_error 500 ''Login failed. Please try again later.''
                     | Inr token \<Rightarrow>
                         \<lparr>status = 200,
                          body = JObj [(''success'', JBool True),
                                       (''message'', JStr ''Login successful''),
                                       (''token'', JStr token),
                                       (''user'', JObj [(''id'', JOid (s_id user)),
                                                        (''name'', JStr (s_name user)),
                                                        (''email'', JStr (s_email user)),
                                                        (''phoneNumber'', JStr (s_phoneNumber user)),
                                                        (''city'', JStr (s_city user))])]\<rparr>))))"

section \<open>The store and what the handlers write to it\<close>

text \<open>
  The collections: the users of \<^verbatim>\<open>models/User.js\<close> with their embedded carts, the users
  of the server schema, the product catalog, and the standalone cart documents of
  \<^verbatim>\<open>models/Cart.js\<close>.
\<close>

record store =
  st_users :: "user list"
  st_server_users :: "server_user list"
  st_products :: "product list"
  st_carts :: "cart_doc list"

text \<open>
  A call of one of the handlers, with what it reads from its surroundings: the clock,
  the salt, the \<^verbatim>\<open>_id\<close> of a new document, and the request.
\<close>

datatype call =
    Register_route nat string objectid req_body
  | Login_route nat req_body
  | Cart_route nat request
  | Payment_POST "js_error + json"
  | Server_register nat string objectid req_body
  | Server_login nat req_body

text \<open>
  The store that a call leaves behind. \<^verbatim>\<open>register/route.js\<close> and the registration of the
  server are the only handlers with a \<^verbatim>\<open>save()\<close>; the login handlers and the payment
  endpoint write nothing, and no handler creates, reads or writes a \<^verbatim>\<open>Cart\<close> document.
\<close>

fun store_after ::
  "jwt_sign \<Rightarrow> jwt_verify \<Rightarrow> bcrypt_hash \<Rightarrow> string option \<Rightarrow> store \<Rightarrow> call \<Rightarrow> store" where
  "store_after sign verify hash JWT_SECRET s (Register_route now salt new_id b) =
     s\<lparr>st_users := fst (register_route sign hash JWT_SECRET now salt new_id (st_users s) b)\<rparr>"
| "store_after sign verify hash JWT_SECRET s (Login_route now b) = s"
| "store_after sign verify hash JWT_SECRET s (Cart_route now req) =
     s\<lparr>st_users := fst (cart_route verify JWT_SECRET now (st_products s) (st_users s) req)\<rparr>"
| "store_after sign verify hash JWT_SECRET s (Payment_POST request_json) = s"
| "store_after sign verify hash JWT_SECRET s (Server_register now salt new_id b) =
     s\<lparr>st_server_users :=
         fst (server_register sign hash JWT_SECRET now salt new_id (st_server_users s) b)\<rparr>"
| "store_after sign verify hash JWT_SECRET s (Server_login now b) = s"





section \<open>Facts about the reference libraries\<close>

lemma takeWhile_replicate_stop:
  "y \<noteq> x \<Longrightarrow> takeWhile (\<lambda>c. c = x) (replicate n x @ y # ys) = replicate n x"
  by (induction n) simp_all

lemma dropWhile_replicate_stop:
  "y \<noteq> x \<Longrightarrow> dropWhile (\<lambda>c. c = x) (replicate n x @ y # ys) = y # ys"
  by (induction n) simp_all

lemma jwt_decode_encode_ref: "jwt_decode_ref (jwt_encode_ref p e s) = Some (p, e, jwt_signature_ref s)"
  by (cases p)
     (simp_all add: jwt_decode_ref_def jwt_encode_ref_def
        takeWhile_replicate_stop dropWhile_replicate_stop)

lemma jwt_encode_ref_no_space: "CHR '' '' \<notin> set (jwt_encode_ref p e s)"
  by (cases p) (auto simp: jwt_encode_ref_def jwt_signature_ref_def)

lemma jwt_encode_ref_nonempty: "jwt_encode_ref p e s \<noteq> []"
  by (cases p) (simp_all add: jwt_encode_ref_def)

lemma jwt_verify_encode_ref:
  "jwt_verify_ref (jwt_encode_ref p e s) (Some s) t = (if e \<le> t then Inl ''jwt expired'' else Inr p)"
  by (simp add: jwt_verify_ref_def jwt_decode_encode_ref)

lemma jwt_contract_ref: "jwt_contract jwt_sign_ref jwt_verify_ref"
  unfolding jwt_contract_def
proof (intro allI impI)
  fix p secret ttl t0 tok
  assume "jwt_sign_ref p secret ttl t0 = Inr tok"
  then obtain s where s: "secret = Some s" and tok: "tok = jwt_encode_ref p (t0 + ttl) s"
    by (auto simp: jwt_sign_ref_def split: option.splits if_splits)
  show "tok \<noteq> [] \<and> CHR '' '' \<notin> set tok \<and>
        (\<forall>t. if t < t0 + ttl then jwt_verify_ref tok secret t = Inr p
             else isl (jwt_verify_ref tok secret t))"
    by (simp add: s tok jwt_encode_ref_nonempty jwt_encode_ref_no_space jwt_verify_encode_ref)
qed

lemma bcrypt_contract_ref: "bcrypt_contract bcrypt_hash_ref bcrypt_compare_ref"
proof -
  have "bcrypt_hash_ref p salt \<noteq> p" for p salt
  proof
    assume "bcrypt_hash_ref p salt = p"
    then have "length (bcrypt_hash_ref p salt) = length p" by simp
    then show False by (simp add: bcrypt_hash_ref_def)
  qed
  moreover have "bcrypt_compare_ref p (bcrypt_hash_ref p salt)" for p salt
    by (simp add: bcrypt_compare_ref_def bcrypt_hash_ref_def)
  moreover have "bcrypt_hash_ref p salt \<noteq> []" for p salt
    by (simp add: bcrypt_hash_ref_def)
  ultimately show ?thesis by (simp add: bcrypt_contract_def)
qed

section \<open>Splitting the Authorization header\<close>

lemma split_on_nonempty: "split_on sep s \<noteq> []"
  by (induction s) (auto split: list.splits)

lemma split_on_no_sep: "sep \<notin> set s \<Longrightarrow> split_on sep s = [s]"
  by (induction s) auto

lemma split_on_first: "sep \<notin> set x \<Longrightarrow> split_on sep (x @ sep # t) = x # split_on sep t"
  by (induction x) auto

lemma at_index_1_scheme:
  "sep \<notin> set x \<Longrightarrow> at_index (split_on sep (x @ sep # t)) 1 = Some (hd (split_on sep t))"
  using split_on_nonempty [of sep t]
  by (cases "split_on sep t") (simp_all add: split_on_first at_index_def)

lemma authMiddleware_scheme:
  assumes "CHR '' '' \<notin> set x"
  shows "map_sum id userId
           (authMiddleware verify secret now (req\<lparr>authorization := Some (x @ CHR '' '' # T)\<rparr>)) =
         (if hd (split_on CHR '' '' T) = [] then Inl no_token
          else (case verify (hd (split_on CHR '' '' T)) secret now of
                  Inr decoded \<Rightarrow> Inr (payload_id decoded)
                | Inl err \<Rightarrow> Inl token_not_valid))"
proof -
  have "at_index (split_on CHR '' '' (x @ CHR '' '' # T)) (Suc 0) = Some (hd (split_on CHR '' '' T))"
    using at_index_1_scheme [OF assms] by simp
  then show ?thesis
    by (simp add: authMiddleware_def Let_def split: sum.splits)
qed

text \<open>
  C9. The middleware takes the second space-separated piece of the Authorization header
  as the token and never looks at the scheme word: with any scheme word \<open>x\<close> (a word, so
  without a space) the header \<open>x T\<close> is answered as \<open>Bearer T\<close> is, with the same response
  or the same identity attached; a header without a space gives no token and the 401
  answer "No token, authorization denied".
\<close>

theorem auth_scheme_ignored:
  "(CHR '' '' \<notin> set x \<longrightarrow>
      map_sum id userId
        (authMiddleware verify secret now (req\<lparr>authorization := Some (x @ CHR '' '' # T)\<rparr>)) =
      map_sum id userId
        (authMiddleware verify secret now (req\<lparr>authorization := Some (''Bearer'' @ CHR '' '' # T)\<rparr>)))
   \<and> (CHR '' '' \<notin> set h \<longrightarrow>
      authMiddleware verify secret now (req\<lparr>authorization := Some h\<rparr>) = Inl no_token)"
proof (intro conjI impI)
  assume x: "CHR '' '' \<notin> set x"
  have b: "CHR '' '' \<notin> set ''Bearer''" by simp
  show "map_sum id userId
        (authMiddleware verify secret now (req\<lparr>authorization := Some (x @ CHR '' '' # T)\<rparr>)) =
      map_sum id userId
        (authMiddleware verify secret now (req\<lparr>authorization := Some (''Bearer'' @ CHR '' '' # T)\<rparr>))"
    unfolding authMiddleware_scheme [OF x] authMiddleware_scheme [OF b] ..
next
  assume "CHR '' '' \<notin> set h"
  then show "authMiddleware verify secret now (req\<lparr>authorization := Some h\<rparr>) = Inl no_token"
    by (simp add: authMiddleware_def split_on_no_sep at_index_def)
qed

theorem auth_scheme_ignored_witness:
  "CHR '' '' \<notin> set ''Token'' \<and>
   map_sum id userId (authMiddleware jwt_verify_ref (Some ''k'') 5
      \<lparr>authorization = Some ''Token i1111111.111111111.k'', userId = None\<rparr>) = Inr (Some 7) \<and>
   CHR '' '' \<notin> set ''i1111111.111111111.k'' \<and>
   authMiddleware jwt_verify_ref (Some ''k'') 5
      \<lparr>authorization = Some ''i1111111.111111111.k'', userId = None\<rparr> = Inl no_token"
proof -
  have b: "map_sum id userId (authMiddleware jwt_verify_ref (Some ''k'') 5
      \<lparr>authorization = Some ''Bearer i1111111.111111111.k'', userId = None\<rparr>) = Inr (Some 7)"
    by (simp add: authMiddleware_def at_index_def jwt_verify_ref_def jwt_decode_ref_def
          jwt_signature_ref_def)
  show ?thesis
    using b auth_scheme_ignored [where x = "''Token''" and verify = jwt_verify_ref
        and secret = "Some ''k''" and now = 5
        and req = "\<lparr>authorization = None, userId = None\<rparr>"
        and T = "''i1111111.111111111.k''" and h = "''i1111111.111111111.k''"]
    by simp
qed

section \<open>Payment requests with a missing token or amount\<close>

lemma truthy_the: "truthy x \<Longrightarrow> Some (the x) = x"
  by (cases x) simp_all

lemma payment_POST_calls:
  "c \<in> set (snd (payment_POST stripe rj)) \<Longrightarrow> truthy (Some (ch_amount c))"
  by (auto simp: payment_POST_def Let_def truthy_the split: sum.splits if_splits prod.splits)

text \<open>
  C10, as the code has it. Once the body is parsed and destructured, the payment
  endpoint answers 400 "Missing token or amount." whenever \<open>token\<close> or \<open>amount\<close> is falsy,
  and makes no call to the processor; the number 0 is falsy, so it is rejected as missing,
  and no call that the endpoint makes to the processor carries the number 0 as its
  amount. When \<open>token\<close> and \<open>amount\<close> are both truthy the endpoint makes one call to the
  processor, with the amount as it came.
\<close>

theorem payment_rejects_falsy:
  "(destructure_body b = Inr (token, amount) \<and> (\<not> truthy token \<or> \<not> truthy amount) \<longrightarrow>
      payment_POST stripe (Inr b) = (missing_token_or_amount, []) \<and>
      status (fst (payment_POST stripe (Inr b))) = 400)
   \<and> (destructure_body b = Inr (token, Some (JNum 0)) \<longrightarrow>
      payment_POST stripe (Inr b) = (missing_token_or_amount, []))
   \<and> (\<forall>c \<in> set (snd (payment_POST stripe rj)). ch_amount c \<noteq> JNum 0)
   \<and> (destructure_body b = Inr (token, amount) \<and> truthy token \<and> truthy amount \<longrightarrow>
      snd (payment_POST stripe (Inr b)) =
        [\<lparr>ch_amount = the amount, ch_currency = ''inr'', ch_source = get_prop (the token) ''id'',
          ch_description = ''Supermarket payment''\<rparr>])"
proof (intro conjI impI ballI)
  assume "destructure_body b = Inr (token, amount) \<and> (\<not> truthy token \<or> \<not> truthy amount)"
  then show "payment_POST stripe (Inr b) = (missing_token_or_amount, [])"
    by (auto simp: payment_POST_def)
  then show "status (fst (payment_POST stripe (Inr b))) = 400"
    by (simp add: missing_token_or_amount_def)
next
  assume "destructure_body b = Inr (token, Some (JNum 0))"
  then show "payment_POST stripe (Inr b) = (missing_token_or_amount, [])"
    by (simp add: payment_POST_def)
next
  fix c assume "c \<in> set (snd (payment_POST stripe rj))"
  from payment_POST_calls [OF this] show "ch_amount c \<noteq> JNum 0"
    by auto
next
  assume "destructure_body b = Inr (token, amount) \<and> truthy token \<and> truthy amount"
  then show "snd (payment_POST stripe (Inr b)) =
        [\<lparr>ch_amount = the amount, ch_currency = ''inr'', ch_source = get_prop (the token) ''id'',
          ch_description = ''Supermarket payment''\<rparr>]"
    by (simp add: payment_POST_def Let_def split: sum.splits)
qed

theorem payment_rejects_falsy_witness:
  "destructure_body (JObj [(''token'', JObj [(''id'', JStr ''tok_visa'')]), (''amount'', JNum 0)]) =
     Inr (Some (JObj [(''id'', JStr ''tok_visa'')]), Some (JNum 0)) \<and>
   \<not> truthy (Some (JNum 0)) \<and>
   payment_POST (\<lambda>p. Inr ''ch_1'')
     (Inr (JObj [(''token'', JObj [(''id'', JStr ''tok_visa'')]), (''amount'', JNum 0)])) =
     (missing_token_or_amount, []) \<and>
   destructure_body (JObj [(''token'', JObj [(''id'', JStr ''tok_visa'')]), (''amount'', JNum 500)]) =
     Inr (Some (JObj [(''id'', JStr ''tok_visa'')]), Some (JNum 500)) \<and>
   truthy (Some (JObj [(''id'', JStr ''tok_visa'')])) \<and> truthy (Some (JNum 500)) \<and>
   snd (payment_POST (\<lambda>p. Inr ''ch_1'')
     (Inr (JObj [(''token'', JObj [(''id'', JStr ''tok_visa'')]), (''amount'', JNum 500)]))) =
     [\<lparr>ch_amount = JNum 500, ch_currency = ''inr'', ch_source = Some (JStr ''tok_visa''),
       ch_description = ''Supermarket payment''\<rparr>] \<and>
   JNum 500 \<noteq> JNum 0"
proof -
  have d: "destructure_body (JObj [(''token'', JObj [(''id'', JStr ''tok_visa'')]), (''amount'', JNum 0)]) =
     Inr (Some (JObj [(''id'', JStr ''tok_visa'')]), Some (JNum 0))"
    "destructure_body (JObj [(''token'', JObj [(''id'', JStr ''tok_visa'')]), (''amount'', JNum 500)]) =
     Inr (Some (JObj [(''id'', JStr ''tok_visa'')]), Some (JNum 500))"
    by (simp_all add: destructure_body_def)
  show ?thesis
    using d
      payment_rejects_falsy [where b = "JObj [(''token'', JObj [(''id'', JStr ''tok_visa'')]), (''amount'', JNum 0)]"
        and token = "Some (JObj [(''id'', JStr ''tok_visa'')])" and amount = "Some (JNum 0)"
        and stripe = "\<lambda>p. Inr ''ch_1''"
        and rj = "Inr (JObj [(''token'', JObj [(''id'', JStr ''tok_visa'')]), (''amount'', JNum 500)])"]
      payment_rejects_falsy [where b = "JObj [(''token'', JObj [(''id'', JStr ''tok_visa'')]), (''amount'', JNum 500)]"
        and token = "Some (JObj [(''id'', JStr ''tok_visa'')])" and amount = "Some (JNum 500)"
        and stripe = "\<lambda>p. Inr ''ch_1''"
        and rj = "Inr (JObj [(''token'', JObj [(''id'', JStr ''tok_visa'')]), (''amount'', JNum 500)])"]
    by simp
qed

text \<open>
  C10 as stated fails in its last clause: the string \<^verbatim>\<open>'0'\<close> is truthy, so a request with
  \<^verbatim>\<open>amount: '0'\<close> passes the test and the charge of amount \<^verbatim>\<open>'0'\<close> is sent to the processor.
\<close>

theorem payment_string_zero_forwarded:
  "payment_POST (\<lambda>p. Inr ''ch_1'')
     (Inr (JObj [(''token'', JObj [(''id'', JStr ''tok_visa'')]), (''amount'', JStr ''0'')])) =
   (\<lparr>status = 200, body = JObj [(''success'', JBool True), (''data'', JStr ''ch_1'')]\<rparr>,
    [\<lparr>ch_amount = JStr ''0'', ch_currency = ''inr'', ch_source = Some (JStr ''tok_visa''),
      ch_description = ''Supermarket payment''\<rparr>])"
  by (simp add: payment_POST_def destructure_body_def)

section \<open>The cart of the authenticated user\<close>

lemma find_map_other:
  "find (\<lambda>u. u_id u = a) (map (\<lambda>u. if u_id u = a then u else u\<lparr>u_cart := f u\<rparr>) db) =
   find (\<lambda>u. u_id u = a) db"
  by (induction db) auto

text \<open>
  C1. When the middleware resolves the token of a request to the identity \<open>a\<close>,
  \<^verbatim>\<open>GET /cart\<close> leaves the store as it is and answers with the populated cart of the
  document whose \<^verbatim>\<open>_id\<close> is \<open>a\<close> (404 when there is none). The response is a function of
  that one document: two stores that agree on it give the same response, and in
  particular giving every other user any other cart changes nothing in it.
\<close>

theorem cart_isolation:
  assumes "authMiddleware verify secret now req = Inr req'" and "userId req' = Some a"
  shows "cart_route verify secret now products db req =
           (db, case find (\<lambda>u. u_id u = a) db of
                  None \<Rightarrow> user_not_found
                | Some A \<Rightarrow> \<lparr>status = 200, body = JArr (map (cart_item_json products) (u_cart A))\<rparr>)
         \<and> (find (\<lambda>u. u_id u = a) db' = find (\<lambda>u. u_id u = a) db \<longrightarrow>
              snd (cart_route verify secret now products db' req) =
              snd (cart_route verify secret now products db req))
         \<and> snd (cart_route verify secret now products
                  (map (\<lambda>u. if u_id u = a then u else u\<lparr>u_cart := f u\<rparr>) db) req) =
             snd (cart_route verify secret now products db req)"
proof -
  have route: "cart_route verify secret now products d req =
           (d, case find (\<lambda>u. u_id u = a) d of
                  None \<Rightarrow> user_not_found
                | Some A \<Rightarrow> \<lparr>status = 200, body = JArr (map (cart_item_json products) (u_cart A))\<rparr>)" for d
    using assms by (simp add: cart_route_def cart_handler_def split: option.splits)
  show ?thesis
    by (simp add: route find_map_other)
qed

theorem cart_isolation_witness:
  "authMiddleware jwt_verify_ref (Some ''k'') 5
     \<lparr>authorization = Some ''Bearer i1111111.111111111.k'', userId = None\<rparr> =
     Inr \<lparr>authorization = Some ''Bearer i1111111.111111111.k'', userId = Some 7\<rparr> \<and>
   cart_route jwt_verify_ref (Some ''k'') 5
     [\<lparr>p_id = 3, p_name = ''tea'', p_description = ''green'', p_price = 40, p_image = ''t.png'', p_stock = 9\<rparr>]
     [\<lparr>u_id = 7, u_name = ''Ann'', u_email = ''a@x.com'', u_password = ''h'',
       u_cart = [\<lparr>item_id = 1, productId = Some 3, quantity = Some 2\<rparr>]\<rparr>,
      \<lparr>u_id = 8, u_name = ''Bob'', u_email = ''b@x.com'', u_password = ''g'',
       u_cart = [\<lparr>item_id = 2, productId = Some 4, quantity = Some 1\<rparr>]\<rparr>]
     \<lparr>authorization = Some ''Bearer i1111111.111111111.k'', userId = None\<rparr> =
     ([\<lparr>u_id = 7, u_name = ''Ann'', u_email = ''a@x.com'', u_password = ''h'',
        u_cart = [\<lparr>item_id = 1, productId = Some 3, quantity = Some 2\<rparr>]\<rparr>,
       \<lparr>u_id = 8, u_name = ''Bob'', u_email = ''b@x.com'', u_password = ''g'',
        u_cart = [\<lparr>item_id = 2, productId = Some 4, quantity = Some 1\<rparr>]\<rparr>],
      \<lparr>status = 200,
       body = JArr [JObj [(''productId'',
                           JObj [(''_id'', JOid 3), (''name'', JStr ''tea''),
                                 (''description'', JStr ''green''), (''price'', JNum 40),
                                 (''image'', JStr ''t.png''), (''stock'', JNum 9)]),
                          (''quantity'', JNum 2), (''_id'', JOid 1)]]\<rparr>) \<and>
   snd (cart_route jwt_verify_ref (Some ''k'') 5
     [\<lparr>p_id = 3, p_name = ''tea'', p_description = ''green'', p_price = 40, p_image = ''t.png'', p_stock = 9\<rparr>]
     [\<lparr>u_id = 7, u_name = ''Ann'', u_email = ''a@x.com'', u_password = ''h'',
       u_cart = [\<lparr>item_id = 1, productId = Some 3, quantity = Some 2\<rparr>]\<rparr>,
      \<lparr>u_id = 8, u_name = ''Bob'', u_email = ''b@x.com'', u_password = ''g'',
       u_cart = []\<rparr>]
     \<lparr>authorization = Some ''Bearer i1111111.111111111.k'', userId = None\<rparr>) =
   snd (cart_route jwt_verify_ref (Some ''k'') 5
     [\<lparr>p_id = 3, p_name = ''tea'', p_description = ''green'', p_price = 40, p_image = ''t.png'', p_stock = 9\<rparr>]
     [\<lparr>u_id = 7, u_name = ''Ann'', u_email = ''a@x.com'', u_password = ''h'',
       u_cart = [\<lparr>item_id = 1, productId = Some 3, quantity = Some 2\<rparr>]\<rparr>,
      \<lparr>u_id = 8, u_name = ''Bob'', u_email = ''b@x.com'', u_password = ''g'',
       u_cart = [\<lparr>item_id = 2, productId = Some 4, quantity = Some 1\<rparr>]\<rparr>]
     \<lparr>authorization = Some ''Bearer i1111111.111111111.k'', userId = None\<rparr>)"
proof -
  have mw: "authMiddleware jwt_verify_ref (Some ''k'') 5
     \<lparr>authorization = Some ''Bearer i1111111.111111111.k'', userId = None\<rparr> =
     Inr \<lparr>authorization = Some ''Bearer i1111111.111111111.k'', userId = Some 7\<rparr>"
    by (simp add: authMiddleware_def at_index_def jwt_verify_ref_def jwt_decode_ref_def
          jwt_signature_ref_def)
  have id: "userId \<lparr>authorization = Some ''Bearer i1111111.111111111.k'', userId = Some 7\<rparr> = Some 7"
    by simp
  show ?thesis
    using mw cart_isolation [OF mw id,
        where products = "[\<lparr>p_id = 3, p_name = ''tea'', p_description = ''green'', p_price = 40,
                             p_image = ''t.png'', p_stock = 9\<rparr>]"
        and db = "[\<lparr>u_id = 7, u_name = ''Ann'', u_email = ''a@x.com'', u_password = ''h'',
                     u_cart = [\<lparr>item_id = 1, productId = Some 3, quantity = Some 2\<rparr>]\<rparr>,
                   \<lparr>u_id = 8, u_name = ''Bob'', u_email = ''b@x.com'', u_password = ''g'',
                     u_cart = [\<lparr>item_id = 2, productId = Some 4, quantity = Some 1\<rparr>]\<rparr>]"
        and f = "\<lambda>u. []"]
    by (simp add: cart_item_json_def populate_def product_json_def)
qed

section \<open>Tokens presented to the middleware\<close>

lemma authMiddleware_bearer:
  assumes "CHR '' '' \<notin> set tok" and "tok \<noteq> []"
  shows "map_sum id userId
           (authMiddleware verify secret now (req\<lparr>authorization := Some (''Bearer'' @ CHR '' '' # tok)\<rparr>)) =
         (case verify tok secret now of
            Inr decoded \<Rightarrow> Inr (payload_id decoded)
          | Inl err \<Rightarrow> Inl token_not_valid)"
proof -
  have "CHR '' '' \<notin> set ''Bearer''" by simp
  from authMiddleware_scheme [OF this] show ?thesis
    using assms by (simp add: split_on_no_sep)
qed

text \<open>
  A token of the library, presented as \<^verbatim>\<open>Bearer <token>\<close> under the secret it was signed
  with: before its expiry the middleware attaches \<^verbatim>\<open>decoded.id\<close>, from the expiry on it
  answers 401.
\<close>

lemma authMiddleware_issued:
  assumes "jwt_contract sign verify" and "sign p secret ttl t0 = Inr tok"
  shows "map_sum id userId
           (authMiddleware verify secret t (req\<lparr>authorization := Some (''Bearer'' @ CHR '' '' # tok)\<rparr>)) =
         (if t < t0 + ttl then Inr (payload_id p) else Inl token_not_valid)"
proof -
  from assms have tok: "CHR '' '' \<notin> set tok" "tok \<noteq> []"
    and v: "if t < t0 + ttl then verify tok secret t = Inr p else isl (verify tok secret t)"
    unfolding jwt_contract_def by blast+
  show ?thesis
    unfolding authMiddleware_bearer [OF tok]
    using v by (auto split: sum.splits if_splits)
qed

lemma register_route_201:
  assumes "status (snd (register_route sign hash secret now salt new_id db b)) = 201"
  shows "\<exists>tok. sign (Payload_userId new_id) secret 3600 now = Inr tok \<and>
           body (snd (register_route sign hash secret now salt new_id db b)) =
             JObj [(''success'', JBool True), (''token'', JStr tok)]"
  using assms
  by (auto simp: register_route_def Let_def message_def split: if_splits option.splits sum.splits)

lemma login_route_200:
  assumes "status (login_route sign compare secret now db b) = 200"
  shows "\<exists>tok user. findOne_email db (b_email b) = Some user \<and>
           sign (Payload_id (u_id user)) secret 86400 now = Inr tok \<and>
           body (login_route sign compare secret now db b) = JObj [(''token'', JStr tok)]"
  using assms
  by (auto simp: login_route_def message_def split: if_splits option.splits sum.splits)

text \<open>
  The token that \<^verbatim>\<open>login/route.js\<close> issues for a user carries \<^verbatim>\<open>{ id }\<close>: before its expiry
  (one day) the middleware attaches that user's \<^verbatim>\<open>_id\<close>, from the expiry on it answers 401.
\<close>

lemma login_token_resolves:
  assumes "jwt_contract sign verify"
    and "status (login_route sign compare secret t0 db b) = 200"
  shows "\<exists>tok user. findOne_email db (b_email b) = Some user \<and>
           body (login_route sign compare secret t0 db b) = JObj [(''token'', JStr tok)] \<and>
           map_sum id userId
             (authMiddleware verify secret t (req\<lparr>authorization := Some (''Bearer'' @ CHR '' '' # tok)\<rparr>)) =
           (if t < t0 + 86400 then Inr (Some (u_id user)) else Inl token_not_valid)"
proof -
  from login_route_200 [OF assms(2)] obtain tok user where
    u: "findOne_email db (b_email b) = Some user" and
    s: "sign (Payload_id (u_id user)) secret 86400 t0 = Inr tok" and
    b: "body (login_route sign compare secret t0 db b) = JObj [(''token'', JStr tok)]"
    by blast
  from authMiddleware_issued [OF assms(1) s] u b show ?thesis
    by auto
qed

text \<open>
  C2. The token that \<^verbatim>\<open>register/route.js\<close> issues for a new user carries
  \<^verbatim>\<open>{ userId }\<close>, and the middleware reads \<^verbatim>\<open>decoded.id\<close>: presented before its expiry
  (one hour) the token is accepted and the identity attached is \<^verbatim>\<open>undefined\<close>, not the
  \<^verbatim>\<open>_id\<close> of the user; from the expiry on the answer is 401.
\<close>

theorem register_token_identity_lost:
  assumes "jwt_contract sign verify"
    and "status (snd (register_route sign hash secret t0 salt new_id db b)) = 201"
  shows "\<exists>tok. body (snd (register_route sign hash secret t0 salt new_id db b)) =
             JObj [(''success'', JBool True), (''token'', JStr tok)] \<and>
           map_sum id userId
             (authMiddleware verify secret t (req\<lparr>authorization := Some (''Bearer'' @ CHR '' '' # tok)\<rparr>)) =
           (if t < t0 + 3600 then Inr None else Inl token_not_valid)"
proof -
  from register_route_201 [OF assms(2)] obtain tok where
    s: "sign (Payload_userId new_id) secret 3600 t0 = Inr tok" and
    b: "body (snd (register_route sign hash secret t0 salt new_id db b)) =
          JObj [(''success'', JBool True), (''token'', JStr tok)]"
    by blast
  from authMiddleware_issued [OF assms(1) s] b show ?thesis
    by auto
qed

lemma register_route_ref_Ann:
  "register_route jwt_sign_ref bcrypt_hash_ref (Some ''k'') 0 ''salt'' 7 []
     \<lparr>b_name = Some ''Ann'', b_phoneNumber = None, b_city = None,
      b_email = Some ''a@x.com'', b_password = Some ''secret1''\<rparr> =
   ([\<lparr>u_id = 7, u_name = ''Ann'', u_email = ''a@x.com'', u_password = ''$salt$secret1'', u_cart = []\<rparr>],
    \<lparr>status = 201,
     body = JObj [(''success'', JBool True),
                  (''token'', JStr (jwt_encode_ref (Payload_userId 7) 3600 ''k''))]\<rparr>)"
  by (simp add: register_route_def save_user_def validate_user_def jwt_sign_ref_def
        bcrypt_hash_ref_def)

theorem register_token_identity_lost_witness:
  "jwt_contract jwt_sign_ref jwt_verify_ref \<and>
   status (snd (register_route jwt_sign_ref bcrypt_hash_ref (Some ''k'') 0 ''salt'' 7 []
     \<lparr>b_name = Some ''Ann'', b_phoneNumber = None, b_city = None,
      b_email = Some ''a@x.com'', b_password = Some ''secret1''\<rparr>)) = 201 \<and>
   map_sum id userId
     (authMiddleware jwt_verify_ref (Some ''k'') 60
        \<lparr>authorization = Some (''Bearer'' @ CHR '' '' # jwt_encode_ref (Payload_userId 7) 3600 ''k''),
         userId = None\<rparr>) = Inr None"
proof -
  have st: "status (snd (register_route jwt_sign_ref bcrypt_hash_ref (Some ''k'') 0 ''salt'' 7 []
     \<lparr>b_name = Some ''Ann'', b_phoneNumber = None, b_city = None,
      b_email = Some ''a@x.com'', b_password = Some ''secret1''\<rparr>)) = 201"
    by (simp add: register_route_ref_Ann)
  show ?thesis
    using st jwt_contract_ref
      register_token_identity_lost [OF jwt_contract_ref st, where t = 60
        and req = "\<lparr>authorization = None, userId = None\<rparr>"]
    by (simp add: register_route_ref_Ann)
qed

section \<open>Registration\<close>

lemma findOne_email_Some_iff:
  "findOne_email db (Some E) \<noteq> None \<longleftrightarrow> list_ex (\<lambda>u. u_email u = E) db"
  by (auto simp: find_None_iff list_ex_iff)

lemma server_findOne_Some_iff:
  "server_findOne db (Some E) \<noteq> None \<longleftrightarrow> list_ex (\<lambda>u. s_email u = toLowerCase (trim E)) db"
  by (auto simp: find_None_iff list_ex_iff)

text \<open>
  What a registration that changes the store leaves in it: one new document at the end,
  under the email of the request (as the setters of the server schema leave it), with
  the hash of the password of the request.
\<close>

lemma register_route_persists:
  assumes "fst (register_route sign hash secret now salt new_id db b) \<noteq> db"
  shows "\<exists>E. b_email b = Some E \<and> findOne_email db (Some E) = None \<and>
           fst (register_route sign hash secret now salt new_id db b) =
             db @ [\<lparr>u_id = new_id, u_name = the (b_name b), u_email = E,
                    u_password = hash (the (b_password b)) salt, u_cart = []\<rparr>]"
  using assms
  by (cases "b_email b")
     (auto simp: register_route_def Let_def save_user_def split: if_splits option.splits sum.splits)

lemma server_register_persists:
  assumes "fst (server_register sign hash secret now salt new_id db b) \<noteq> db"
  shows "\<exists>E P. b_email b = Some E \<and> b_password b = Some P \<and> server_findOne db (Some E) = None \<and>
           fst (server_register sign hash secret now salt new_id db b) =
             db @ [(new_User new_id now (the (b_name b)) (the (b_phoneNumber b)) (the (b_city b)) E P)
                     \<lparr>s_password := Some (hash P salt)\<rparr>]"
  using assms
  by (cases "b_email b"; cases "b_password b")
     (auto simp: server_register_def Let_def server_save_def new_User_def
           split: if_splits option.splits sum.splits)

lemma register_route_grows:
  "list_ex (\<lambda>u. u_email u = E) db \<Longrightarrow>
   list_ex (\<lambda>u. u_email u = E) (fst (register_route sign hash secret now salt new_id db b))"
  by (cases "fst (register_route sign hash secret now salt new_id db b) = db")
     (auto dest!: register_route_persists simp: list_ex_iff)

lemma server_register_grows:
  "list_ex (\<lambda>u. s_email u = E) db \<Longrightarrow>
   list_ex (\<lambda>u. s_email u = E) (fst (server_register sign hash secret now salt new_id db b))"
  by (cases "fst (server_register sign hash secret now salt new_id db b) = db")
     (auto dest!: server_register_persists simp: list_ex_iff)

text \<open>
  A registration that changes the store leaves a document for the email of the request
  in it, and later registrations keep it there.
\<close>

lemma register_route_stores_email:
  assumes "fst (register_route sign hash secret now salt new_id db b) \<noteq> db"
    and "b_email b = Some E"
  shows "list_ex (\<lambda>u. u_email u = E) (fst (register_route sign hash secret now salt new_id db b))"
  using register_route_persists [OF assms(1)] assms(2) by (auto simp: list_ex_iff)

lemma server_register_stores_email:
  assumes "fst (server_register sign hash secret now salt new_id db b) \<noteq> db"
    and "b_email b = Some E"
  shows "list_ex (\<lambda>u. s_email u = toLowerCase (trim E))
           (fst (server_register sign hash secret now salt new_id db b))"
  using server_register_persists [OF assms(1)] assms(2)
  by (auto simp: list_ex_iff new_User_def)

text \<open>
  C3. Once the store holds a document for the email \<open>E\<close> (for the server: for \<open>E\<close>
  trimmed and lowercased, which is how a registration with \<open>E\<close> stores it), every
  registration request with the email \<open>E\<close> is answered 400 and leaves the store as it was,
  in \<^verbatim>\<open>register/route.js\<close> and in the server alike, whatever the other fields of the
  request are.
\<close>

theorem duplicate_email_rejected:
  "(list_ex (\<lambda>u. u_email u = E) db \<longrightarrow>
      fst (register_route sign hash secret now salt new_id db (b\<lparr>b_email := Some E\<rparr>)) = db \<and>
      status (snd (register_route sign hash secret now salt new_id db (b\<lparr>b_email := Some E\<rparr>))) = 400)
   \<and> (list_ex (\<lambda>u. s_email u = toLowerCase (trim E)) sdb \<longrightarrow>
      fst (server_register sign hash secret now salt new_id sdb (b\<lparr>b_email := Some E\<rparr>)) = sdb \<and>
      status (snd (server_register sign hash secret now salt new_id sdb (b\<lparr>b_email := Some E\<rparr>))) = 400)"
proof (intro conjI impI)
  assume "list_ex (\<lambda>u. u_email u = E) db"
  then have f: "findOne_email db (Some E) \<noteq> None"
    using findOne_email_Some_iff [of db E] by blast
  then show "fst (register_route sign hash secret now salt new_id db (b\<lparr>b_email := Some E\<rparr>)) = db"
    by (auto simp: register_route_def)
  from f show "status (snd (register_route sign hash secret now salt new_id db (b\<lparr>b_email := Some E\<rparr>))) = 400"
    by (auto simp: register_route_def message_def)
next
  assume "list_ex (\<lambda>u. s_email u = toLowerCase (trim E)) sdb"
  then have f: "server_findOne sdb (Some E) \<noteq> None"
    using server_findOne_Some_iff [of sdb E] by blast
  then show "fst (server_register sign hash secret now salt new_id sdb (b\<lparr>b_email := Some E\<rparr>)) = sdb"
    by (auto simp: server_register_def)
  from f show "status (snd (server_register sign hash secret now salt new_id sdb (b\<lparr>b_email := Some E\<rparr>))) = 400"
    by (auto simp: server_register_def failure_message_def)
qed

lemma toLowerCase_trim_Ann: "toLowerCase (trim ''A@x.com'') = ''a@x.com''"
  by code_simp

theorem duplicate_email_rejected_witness:
  "list_ex (\<lambda>u. u_email u = ''a@x.com'')
     [\<lparr>u_id = 7, u_name = ''Ann'', u_email = ''a@x.com'', u_password = ''$salt$secret1'', u_cart = []\<rparr>] \<and>
   register_route jwt_sign_ref bcrypt_hash_ref (Some ''k'') 9 ''salt'' 8
     [\<lparr>u_id = 7, u_name = ''Ann'', u_email = ''a@x.com'', u_password = ''$salt$secret1'', u_cart = []\<rparr>]
     \<lparr>b_name = Some ''Amy'', b_phoneNumber = None, b_city = None,
      b_email = Some ''a@x.com'', b_password = Some ''hunter22''\<rparr> =
   ([\<lparr>u_id = 7, u_name = ''Ann'', u_email = ''a@x.com'', u_password = ''$salt$secret1'', u_cart = []\<rparr>],
    \<lparr>status = 400, body = JObj [(''message'', JStr ''User already exists'')]\<rparr>) \<and>
   list_ex (\<lambda>u. s_email u = toLowerCase (trim ''A@x.com''))
     [\<lparr>s_id = 7, s_name = ''Ann'', s_phoneNumber = ''9876543210'', s_city = ''Pune'',
       s_email = ''a@x.com'', s_password = Some ''$salt$secret1'', s_createdAt = 0\<rparr>] \<and>
   server_register jwt_sign_ref bcrypt_hash_ref (Some ''k'') 9 ''salt'' 8
     [\<lparr>s_id = 7, s_name = ''Ann'', s_phoneNumber = ''9876543210'', s_city = ''Pune'',
       s_email = ''a@x.com'', s_password = Some ''$salt$secret1'', s_createdAt = 0\<rparr>]
     \<lparr>b_name = Some ''Amy'', b_phoneNumber = Some ''9123456780'', b_city = Some ''Goa'',
      b_email = Some ''A@x.com'', b_password = Some ''hunter22''\<rparr> =
   ([\<lparr>s_id = 7, s_name = ''Ann'', s_phoneNumber = ''9876543210'', s_city = ''Pune'',
       s_email = ''a@x.com'', s_password = Some ''$salt$secret1'', s_createdAt = 0\<rparr>],
    \<lparr>status = 400,
     body = JObj [(''success'', JBool False), (''message'', JStr ''Email already exists'')]\<rparr>)"
proof -
  have r: "snd (register_route jwt_sign_ref bcrypt_hash_ref (Some ''k'') 9 ''salt'' 8
     [\<lparr>u_id = 7, u_name = ''Ann'', u_email = ''a@x.com'', u_password = ''$salt$secret1'', u_cart = []\<rparr>]
     \<lparr>b_name = Some ''Amy'', b_phoneNumber = None, b_city = None,
      b_email = Some ''a@x.com'', b_password = Some ''hunter22''\<rparr>) =
     \<lparr>status = 400, body = JObj [(''message'', JStr ''User already exists'')]\<rparr>"
    by (simp add: register_route_def message_def)
  have s: "snd (server_register jwt_sign_ref bcrypt_hash_ref (Some ''k'') 9 ''salt'' 8
     [\<lparr>s_id = 7, s_name = ''Ann'', s_phoneNumber = ''9876543210'', s_city = ''Pune'',
       s_email = ''a@x.com'', s_password = Some ''$salt$secret1'', s_createdAt = 0\<rparr>]
     \<lparr>b_name = Some ''Amy'', b_phoneNumber = Some ''9123456780'', b_city = Some ''Goa'',
      b_email = Some ''A@x.com'', b_password = Some ''hunter22''\<rparr>) =
     \<lparr>status = 400,
      body = JObj [(''success'', JBool False), (''message'', JStr ''Email already exists'')]\<rparr>"
    by (simp add: server_register_def failure_message_def toLowerCase_trim_Ann
          emailRegex_test_def phoneRegex_test_def is_space_def is_digit_def)
  show ?thesis
    using duplicate_email_rejected [where E = "''a@x.com''" and sign = jwt_sign_ref
        and hash = bcrypt_hash_ref and secret = "Some ''k''" and now = 9 and salt = "''salt''"
        and new_id = 8
        and db = "[\<lparr>u_id = 7, u_name = ''Ann'', u_email = ''a@x.com'',
                     u_password = ''$salt$secret1'', u_cart = []\<rparr>]"
        and sdb = "[]"
        and b = "\<lparr>b_name = Some ''Amy'', b_phoneNumber = None, b_city = None,
                   b_email = Some ''a@x.com'', b_password = Some ''hunter22''\<rparr>"]
      duplicate_email_rejected [where E = "''A@x.com''" and sign = jwt_sign_ref
        and hash = bcrypt_hash_ref and secret = "Some ''k''" and now = 9 and salt = "''salt''"
        and new_id = 8
        and db = "[]"
        and sdb = "[\<lparr>s_id = 7, s_name = ''Ann'', s_phoneNumber = ''9876543210'', s_city = ''Pune'',
                      s_email = ''a@x.com'', s_password = Some ''$salt$secret1'', s_createdAt = 0\<rparr>]"
        and b = "\<lparr>b_name = Some ''Amy'', b_phoneNumber = Some ''9123456780'', b_city = Some ''Goa'',
                   b_email = Some ''A@x.com'', b_password = Some ''hunter22''\<rparr>"]
      r s
    by (simp add: toLowerCase_trim_Ann prod_eq_iff)
qed

text \<open>
  C4. Whenever a registration with the password \<open>P\<close> persists a user, the password
  stored in the new document is not \<open>P\<close>, and comparing \<open>P\<close> with it (\<^verbatim>\<open>bcrypt.compare\<close>, and
  \<^verbatim>\<open>comparePassword\<close> on the stored document) gives true: \<^verbatim>\<open>register/route.js\<close> stores
  \<^verbatim>\<open>bcrypt.hash(password, 10)\<close>, the server stores what its \<^verbatim>\<open>pre('save')\<close> hook computes.
\<close>

theorem stored_password_hashed:
  assumes "bcrypt_contract hash compare"
  shows "(fst (register_route sign hash secret now salt new_id db (b\<lparr>b_password := Some P\<rparr>)) \<noteq> db \<longrightarrow>
           (\<exists>u. fst (register_route sign hash secret now salt new_id db (b\<lparr>b_password := Some P\<rparr>)) = db @ [u] \<and>
                u_password u \<noteq> P \<and> compare P (u_password u)))
       \<and> (fst (server_register sign hash secret now salt new_id sdb (b\<lparr>b_password := Some P\<rparr>)) \<noteq> sdb \<longrightarrow>
           (\<exists>u h. fst (server_register sign hash secret now salt new_id sdb (b\<lparr>b_password := Some P\<rparr>)) = sdb @ [u] \<and>
                s_password u = Some h \<and> h \<noteq> P \<and> comparePassword compare u (Some P) = Inr True))"
proof (intro conjI impI)
  from assms have c: "hash P salt \<noteq> P" "compare P (hash P salt)"
    by (simp_all add: bcrypt_contract_def)
  {
    assume "fst (register_route sign hash secret now salt new_id db (b\<lparr>b_password := Some P\<rparr>)) \<noteq> db"
    from register_route_persists [OF this] c
    show "\<exists>u. fst (register_route sign hash secret now salt new_id db (b\<lparr>b_password := Some P\<rparr>)) = db @ [u] \<and>
                u_password u \<noteq> P \<and> compare P (u_password u)"
      by auto
  }
  {
    assume "fst (server_register sign hash secret now salt new_id sdb (b\<lparr>b_password := Some P\<rparr>)) \<noteq> sdb"
    from server_register_persists [OF this] c
    show "\<exists>u h. fst (server_register sign hash secret now salt new_id sdb (b\<lparr>b_password := Some P\<rparr>)) = sdb @ [u] \<and>
                s_password u = Some h \<and> h \<noteq> P \<and> comparePassword compare u (Some P) = Inr True"
      by (auto simp: comparePassword_def)
  }
qed

lemma trim_ref_values:
  "trim ''Ann'' = ''Ann''" "trim ''9876543210'' = ''9876543210''" "trim ''Pune'' = ''Pune''"
  by code_simp+

lemma server_register_ref_Ann:
  "server_register jwt_sign_ref bcrypt_hash_ref secret 0 ''salt'' 7 []
     \<lparr>b_name = Some ''Ann'', b_phoneNumber = Some ''9876543210'', b_city = Some ''Pune'',
      b_email = Some ''A@x.com'', b_password = Some ''secret1''\<rparr> =
   ([\<lparr>s_id = 7, s_name = ''Ann'', s_phoneNumber = ''9876543210'', s_city = ''Pune'',
      s_email = ''a@x.com'', s_password = Some ''$salt$secret1'', s_createdAt = 0\<rparr>],
    case jwt_sign_ref (Payload_userId 7) (secret_or_default secret) 3600 0 of
      Inl error \<Rightarrow> failure_error 500 ''Registration failed. Please try again later.''
    | Inr token \<Rightarrow>
        \<lparr>status = 201,
         body = JObj [(''success'', JBool True),
                      (''message'', JStr ''Registration successful''),
                      (''user'', JObj [(''id'', JOid 7), (''name'', JStr ''Ann''),
                                       (''email'', JStr ''a@x.com''), (''city'', JStr ''Pune''),
                                       (''phoneNumber'', JStr ''9876543210'')]),
                      (''token'', JStr token)]\<rparr>)"
  by (simp add: server_register_def server_save_def validate_server_user_def new_User_def
        emailRegex_test_def phoneRegex_test_def schema_email_test_def is_space_def is_digit_def
        toLowerCase_trim_Ann trim_ref_values bcrypt_hash_ref_def split: sum.splits)

theorem stored_password_hashed_witness:
  "bcrypt_contract bcrypt_hash_ref bcrypt_compare_ref \<and>
   fst (register_route jwt_sign_ref bcrypt_hash_ref (Some ''k'') 0 ''salt'' 7 []
     \<lparr>b_name = Some ''Ann'', b_phoneNumber = None, b_city = None,
      b_email = Some ''a@x.com'', b_password = Some ''secret1''\<rparr>) =
     [] @ [\<lparr>u_id = 7, u_name = ''Ann'', u_email = ''a@x.com'', u_password = ''$salt$secret1'', u_cart = []\<rparr>] \<and>
   ''$salt$secret1'' \<noteq> ''secret1'' \<and>
   bcrypt_compare_ref ''secret1'' ''$salt$secret1'' \<and>
   fst (server_register jwt_sign_ref bcrypt_hash_ref (Some ''k'') 0 ''salt'' 7 []
     \<lparr>b_name = Some ''Ann'', b_phoneNumber = Some ''9876543210'', b_city = Some ''Pune'',
      b_email = Some ''A@x.com'', b_password = Some ''secret1''\<rparr>) =
     [] @ [\<lparr>s_id = 7, s_name = ''Ann'', s_phoneNumber = ''9876543210'', s_city = ''Pune'',
       s_email = ''a@x.com'', s_password = Some ''$salt$secret1'', s_createdAt = 0\<rparr>] \<and>
   comparePassword bcrypt_compare_ref
     \<lparr>s_id = 7, s_name = ''Ann'', s_phoneNumber = ''9876543210'', s_city = ''Pune'',
      s_email = ''a@x.com'', s_password = Some ''$salt$secret1'', s_createdAt = 0\<rparr>
     (Some ''secret1'') = Inr True"
  using bcrypt_contract_ref
    stored_password_hashed [OF bcrypt_contract_ref, where sign = jwt_sign_ref
      and secret = "Some ''k''" and now = 0 and salt = "''salt''" and new_id = 7
      and db = "[]" and sdb = "[]" and P = "''secret1''"
      and b = "\<lparr>b_name = Some ''Ann'', b_phoneNumber = Some ''9876543210'', b_city = Some ''Pune'',
                 b_email = Some ''A@x.com'', b_password = Some ''secret1''\<rparr>"]
  by (simp add: register_route_ref_Ann server_register_ref_Ann comparePassword_def
        bcrypt_compare_ref_def)

section \<open>Login\<close>

lemma server_findOne_no_password: "server_findOne db e = Some u \<Longrightarrow> s_password u = None"
  by (cases e) auto

text \<open>
  The server reads the user without the password (\<^verbatim>\<open>select: false\<close>) and then compares
  against \<^verbatim>\<open>this.password\<close>: for an email that is in the store, \<^verbatim>\<open>comparePassword\<close> throws and
  the login is answered 500, whatever the password.
\<close>

lemma server_login_registered:
  assumes "\<not> falsy (b_email b)" and "\<not> falsy (b_password b)"
    and "server_findOne db (b_email b) = Some u"
  shows "server_login sign compare secret now db b =
           failure_error 500 ''Login failed. Please try again later.''"
proof -
  from assms(2) obtain W where W: "b_password b = Some W"
    by (cases "b_password b") auto
  from server_findOne_no_password [OF assms(3)] have "comparePassword compare u (Some W) =
      Inl ''Illegal arguments: string, undefined''"
    by (simp add: comparePassword_def)
  with assms W show ?thesis
    by (simp add: server_login_def)
qed

text \<open>
  C5, as the code has it. \<^verbatim>\<open>login/route.js\<close> answers an email that is not in the store
  with 404 "User not found" and a wrong password for an email that is in the store with
  401 "Invalid credentials". The server answers an email that is not in the store, sent
  with a non-empty password, with 401 "Invalid email or password".
\<close>

theorem login_failure_responses:
  "(findOne_email db (Some E') = None \<longrightarrow>
      login_route sign compare secret now db (b\<lparr>b_email := Some E'\<rparr>) =
        \<lparr>status = 404, body = JObj [(''message'', JStr ''User not found'')]\<rparr>)
   \<and> (findOne_email db (Some E) = Some u \<and> \<not> compare W (u_password u) \<longrightarrow>
      login_route sign compare secret now db (b\<lparr>b_email := Some E, b_password := Some W\<rparr>) =
        \<lparr>status = 401, body = JObj [(''message'', JStr ''Invalid credentials'')]\<rparr>)
   \<and> (E' \<noteq> [] \<and> W' \<noteq> [] \<and> server_findOne sdb (Some E') = None \<longrightarrow>
      server_login sign compare secret now sdb (b\<lparr>b_email := Some E', b_password := Some W'\<rparr>) =
        \<lparr>status = 401,
         body = JObj [(''success'', JBool False), (''error'', JStr ''Invalid email or password'')]\<rparr>)"
  by (simp add: login_route_def server_login_def message_def failure_error_def)

theorem login_failure_responses_witness:
  "login_route jwt_sign_ref bcrypt_compare_ref (Some ''k'') 0
     [\<lparr>u_id = 7, u_name = ''Ann'', u_email = ''a@x.com'', u_password = ''$salt$secret1'', u_cart = []\<rparr>]
     \<lparr>b_name = None, b_phoneNumber = None, b_city = None,
      b_email = Some ''nobody@x.com'', b_password = Some ''secret1''\<rparr> =
     \<lparr>status = 404, body = JObj [(''message'', JStr ''User not found'')]\<rparr> \<and>
   \<not> bcrypt_compare_ref ''wrong'' ''$salt$secret1'' \<and>
   login_route jwt_sign_ref bcrypt_compare_ref (Some ''k'') 0
     [\<lparr>u_id = 7, u_name = ''Ann'', u_email = ''a@x.com'', u_password = ''$salt$secret1'', u_cart = []\<rparr>]
     \<lparr>b_name = None, b_phoneNumber = None, b_city = None,
      b_email = Some ''a@x.com'', b_password = Some ''wrong''\<rparr> =
     \<lparr>status = 401, body = JObj [(''message'', JStr ''Invalid credentials'')]\<rparr> \<and>
   server_login jwt_sign_ref bcrypt_compare_ref (Some ''k'') 0
     [\<lparr>s_id = 7, s_name = ''Ann'', s_phoneNumber = ''9876543210'', s_city = ''Pune'',
       s_email = ''a@x.com'', s_password = Some ''$salt$secret1'', s_createdAt = 0\<rparr>]
     \<lparr>b_name = None, b_phoneNumber = None, b_city = None,
      b_email = Some ''nobody@x.com'', b_password = Some ''wrong''\<rparr> =
     \<lparr>status = 401,
      body = JObj [(''success'', JBool False), (''error'', JStr ''Invalid email or password'')]\<rparr>"
proof -
  have n: "toLowerCase (trim ''nobody@x.com'') = ''nobody@x.com''"
    by code_simp
  have c: "\<not> bcrypt_compare_ref ''wrong'' ''$salt$secret1''"
    by (simp add: bcrypt_compare_ref_def)
  show ?thesis
    using c login_failure_responses [where sign = jwt_sign_ref and compare = bcrypt_compare_ref
        and secret = "Some ''k''" and now = 0 and E = "''a@x.com''" and E' = "''nobody@x.com''"
        and W = "''wrong''" and W' = "''wrong''"
        and u = "\<lparr>u_id = 7, u_name = ''Ann'', u_email = ''a@x.com'',
                   u_password = ''$salt$secret1'', u_cart = []\<rparr>"
        and db = "[\<lparr>u_id = 7, u_name = ''Ann'', u_email = ''a@x.com'',
                     u_password = ''$salt$secret1'', u_cart = []\<rparr>]"
        and sdb = "[\<lparr>s_id = 7, s_name = ''Ann'', s_phoneNumber = ''9876543210'', s_city = ''Pune'',
                      s_email = ''a@x.com'', s_password = Some ''$salt$secret1'', s_createdAt = 0\<rparr>]"
        and b = "\<lparr>b_name = None, b_phoneNumber = None, b_city = None,
                   b_email = Some ''nobody@x.com'', b_password = Some ''secret1''\<rparr>"]
    by (simp add: n)
qed

text \<open>
  C5 as stated fails in \<^verbatim>\<open>login/route.js\<close>: with Ann registered, a wrong password
  for her email is answered 401 and an email that is not registered is answered 404.
\<close>

theorem login_route_distinguishes:
  "status (login_route jwt_sign_ref bcrypt_compare_ref (Some ''k'') 0
     [\<lparr>u_id = 7, u_name = ''Ann'', u_email = ''a@x.com'', u_password = ''$salt$secret1'', u_cart = []\<rparr>]
     \<lparr>b_name = None, b_phoneNumber = None, b_city = None,
      b_email = Some ''a@x.com'', b_password = Some ''wrong''\<rparr>) = 401 \<and>
   status (login_route jwt_sign_ref bcrypt_compare_ref (Some ''k'') 0
     [\<lparr>u_id = 7, u_name = ''Ann'', u_email = ''a@x.com'', u_password = ''$salt$secret1'', u_cart = []\<rparr>]
     \<lparr>b_name = None, b_phoneNumber = None, b_city = None,
      b_email = Some ''nobody@x.com'', b_password = Some ''wrong''\<rparr>) = 404"
  by (simp add: login_route_def message_def bcrypt_compare_ref_def)

section \<open>The response to a successful registration\<close>

lemma findOne_email_None_iff:
  "findOne_email db (Some E) = None \<longleftrightarrow> \<not> list_ex (\<lambda>u. u_email u = E) db"
  using findOne_email_Some_iff [of db E] by blast

lemma register_route_success:
  assumes "hash P salt \<noteq> []"
    and "N \<noteq> []" and "E \<noteq> []" and "P \<noteq> []"
    and "findOne_email db (Some E) = None"
  shows "register_route sign hash secret now salt new_id db
           \<lparr>b_name = Some N, b_phoneNumber = ph, b_city = ci, b_email = Some E, b_password = Some P\<rparr> =
         (db @ [\<lparr>u_id = new_id, u_name = N, u_email = E, u_password = hash P salt, u_cart = []\<rparr>],
          case sign (Payload_userId new_id) secret 3600 now of
            Inl error \<Rightarrow> message 500 ''An error occurred. Please try again later.''
          | Inr token \<Rightarrow>
              \<lparr>status = 201, body = JObj [(''success'', JBool True), (''token'', JStr token)]\<rparr>)"
proof -
  from assms(5) have "\<not> list_ex (\<lambda>u. u_email u = E) db"
    using findOne_email_None_iff [of db E] by blast
  with assms show ?thesis
    by (simp add: register_route_def save_user_def validate_user_def split: sum.splits)
qed

text \<open>
  C6, as the code has it. For a valid registration sent to \<^verbatim>\<open>register/route.js\<close> (the
  three fields are there and the email is new) for which \<^verbatim>\<open>jwt.sign\<close> returns a token, the
  answer is 201 with the body \<^verbatim>\<open>{ success: true, token }\<close>; the token is not empty, and the
  body has no user object.
\<close>

theorem register_success_response:
  assumes "jwt_contract sign verify" and "bcrypt_contract hash compare"
  shows "N \<noteq> [] \<and> E \<noteq> [] \<and> P \<noteq> [] \<and> findOne_email db (Some E) = None \<and>
         sign (Payload_userId new_id) secret 3600 now = Inr tok \<longrightarrow>
           snd (register_route sign hash secret now salt new_id db
                  \<lparr>b_name = Some N, b_phoneNumber = ph, b_city = ci, b_email = Some E,
                   b_password = Some P\<rparr>) =
             \<lparr>status = 201, body = JObj [(''success'', JBool True), (''token'', JStr tok)]\<rparr> \<and>
           tok \<noteq> [] \<and>
           get_prop (body (snd (register_route sign hash secret now salt new_id db
                  \<lparr>b_name = Some N, b_phoneNumber = ph, b_city = ci, b_email = Some E,
                   b_password = Some P\<rparr>))) ''user'' = None"
proof (intro impI)
  from assms(2) have h: "hash P salt \<noteq> []"
    by (simp add: bcrypt_contract_def)
  assume a: "N \<noteq> [] \<and> E \<noteq> [] \<and> P \<noteq> [] \<and> findOne_email db (Some E) = None \<and>
         sign (Payload_userId new_id) secret 3600 now = Inr tok"
  then have r: "snd (register_route sign hash secret now salt new_id db
                  \<lparr>b_name = Some N, b_phoneNumber = ph, b_city = ci, b_email = Some E,
                   b_password = Some P\<rparr>) =
             \<lparr>status = 201, body = JObj [(''success'', JBool True), (''token'', JStr tok)]\<rparr>"
    by (simp add: register_route_success [where hash = hash and P = P and salt = salt, OF h])
  from a assms(1) have "tok \<noteq> []"
    unfolding jwt_contract_def by blast
  with r show "snd (register_route sign hash secret now salt new_id db
                  \<lparr>b_name = Some N, b_phoneNumber = ph, b_city = ci, b_email = Some E,
                   b_password = Some P\<rparr>) =
             \<lparr>status = 201, body = JObj [(''success'', JBool True), (''token'', JStr tok)]\<rparr> \<and>
           tok \<noteq> [] \<and>
           get_prop (body (snd (register_route sign hash secret now salt new_id db
                  \<lparr>b_name = Some N, b_phoneNumber = ph, b_city = ci, b_email = Some E,
                   b_password = Some P\<rparr>))) ''user'' = None"
    by simp
qed

theorem register_success_response_witness:
  "jwt_contract jwt_sign_ref jwt_verify_ref \<and> bcrypt_contract bcrypt_hash_ref bcrypt_compare_ref \<and>
   findOne_email [] (Some ''a@x.com'') = None \<and>
   jwt_sign_ref (Payload_userId 7) (Some ''k'') 3600 0 = Inr (jwt_encode_ref (Payload_userId 7) 3600 ''k'') \<and>
   snd (register_route jwt_sign_ref bcrypt_hash_ref (Some ''k'') 0 ''salt'' 7 []
          \<lparr>b_name = Some ''Ann'', b_phoneNumber = None, b_city = None,
           b_email = Some ''a@x.com'', b_password = Some ''secret1''\<rparr>) =
     \<lparr>status = 201,
      body = JObj [(''success'', JBool True),
                   (''token'', JStr (jwt_encode_ref (Payload_userId 7) 3600 ''k''))]\<rparr> \<and>
   jwt_encode_ref (Payload_userId 7) 3600 ''k'' \<noteq> []"
proof -
  have s: "jwt_sign_ref (Payload_userId 7) (Some ''k'') 3600 0 =
      Inr (jwt_encode_ref (Payload_userId 7) 3600 ''k'')"
    by (simp add: jwt_sign_ref_def)
  show ?thesis
    using jwt_contract_ref bcrypt_contract_ref s
      register_success_response [OF jwt_contract_ref bcrypt_contract_ref,
        where N = "''Ann''" and E = "''a@x.com''" and P = "''secret1''" and db = "[]"
        and new_id = 7 and secret = "Some ''k''" and now = 0 and salt = "''salt''"
        and tok = "jwt_encode_ref (Payload_userId 7) 3600 ''k''" and ph = None and ci = None]
    by simp
qed

text \<open>
  C6 as stated fails in \<^verbatim>\<open>register/route.js\<close>: the 201 response to Ann's registration
  has \<^verbatim>\<open>success\<close> and \<^verbatim>\<open>token\<close> and no \<^verbatim>\<open>user\<close>.
\<close>

theorem register_route_no_user_object:
  "status (snd (register_route jwt_sign_ref bcrypt_hash_ref (Some ''k'') 0 ''salt'' 7 []
     \<lparr>b_name = Some ''Ann'', b_phoneNumber = None, b_city = None,
      b_email = Some ''a@x.com'', b_password = Some ''secret1''\<rparr>)) = 201 \<and>
   get_prop (body (snd (register_route jwt_sign_ref bcrypt_hash_ref (Some ''k'') 0 ''salt'' 7 []
     \<lparr>b_name = Some ''Ann'', b_phoneNumber = None, b_city = None,
      b_email = Some ''a@x.com'', b_password = Some ''secret1''\<rparr>))) ''user'' = None"
  by (simp add: register_route_ref_Ann)

section \<open>An unset signing secret\<close>

text \<open>
  C7, as the code has it. \<^verbatim>\<open>register/route.js\<close> and \<^verbatim>\<open>login/route.js\<close> hand
  \<^verbatim>\<open>process.env.JWT_SECRET\<close> to \<^verbatim>\<open>jwt.sign\<close> as it is, set or not, and sign with no other
  secret: what they do depends on \<^verbatim>\<open>jwt.sign\<close> only through its results under that
  secret. When \<^verbatim>\<open>jwt.sign\<close> throws under the unset secret, the request that reached it is
  answered 500, the registration after the user has been stored.
\<close>

theorem unset_secret_behaviour:
  "((\<forall>p ttl t. sign p secret ttl t = sign' p secret ttl t) \<longrightarrow>
       register_route sign hash secret now salt new_id db b =
         register_route sign' hash secret now salt new_id db b \<and>
       login_route sign compare secret now db b = login_route sign' compare secret now db b)
   \<and> (sign (Payload_userId new_id) None 3600 now = Inl e \<and>
       fst (register_route sign hash None now salt new_id db b) \<noteq> db \<longrightarrow>
         snd (register_route sign hash None now salt new_id db b) =
           \<lparr>status = 500,
            body = JObj [(''message'', JStr ''An error occurred. Please try again later.'')]\<rparr>)
   \<and> (findOne_email db (b_email b) = Some u \<and>
       bcrypt_compare_js compare (b_password b) (Some (u_password u)) = Inr True \<and>
       sign (Payload_id (u_id u)) None 86400 now = Inl e' \<longrightarrow>
         login_route sign compare None now db b =
           \<lparr>status = 500, body = JObj [(''error'', JStr e')]\<rparr>)"
proof (intro conjI impI)
  assume "\<forall>p ttl t. sign p secret ttl t = sign' p secret ttl t"
  then show "register_route sign hash secret now salt new_id db b =
         register_route sign' hash secret now salt new_id db b"
    "login_route sign compare secret now db b = login_route sign' compare secret now db b"
    by (simp_all add: register_route_def login_route_def Let_def
          cong: option.case_cong sum.case_cong if_cong)
next
  assume "sign (Payload_userId new_id) None 3600 now = Inl e \<and>
       fst (register_route sign hash None now salt new_id db b) \<noteq> db"
  then show "snd (register_route sign hash None now salt new_id db b) =
           \<lparr>status = 500,
            body = JObj [(''message'', JStr ''An error occurred. Please try again later.'')]\<rparr>"
    by (auto simp: register_route_def Let_def message_def split: if_splits option.splits sum.splits)
next
  assume "findOne_email db (b_email b) = Some u \<and>
       bcrypt_compare_js compare (b_password b) (Some (u_password u)) = Inr True \<and>
       sign (Payload_id (u_id u)) None 86400 now = Inl e'"
  then show "login_route sign compare None now db b =
           \<lparr>status = 500, body = JObj [(''error'', JStr e')]\<rparr>"
    by (simp add: login_route_def)
qed

lemma register_route_unset_ref_Bob:
  "register_route jwt_sign_ref bcrypt_hash_ref None 9 ''pepper'' 8
     [\<lparr>u_id = 7, u_name = ''Ann'', u_email = ''a@x.com'', u_password = ''$salt$secret1'', u_cart = []\<rparr>]
     \<lparr>b_name = Some ''Bob'', b_phoneNumber = None, b_city = None,
      b_email = Some ''b@x.com'', b_password = Some ''hunter22''\<rparr> =
   ([\<lparr>u_id = 7, u_name = ''Ann'', u_email = ''a@x.com'', u_password = ''$salt$secret1'', u_cart = []\<rparr>,
     \<lparr>u_id = 8, u_name = ''Bob'', u_email = ''b@x.com'', u_password = ''$pepper$hunter22'', u_cart = []\<rparr>],
    \<lparr>status = 500,
     body = JObj [(''message'', JStr ''An error occurred. Please try again later.'')]\<rparr>)"
  by (simp add: register_route_def save_user_def validate_user_def jwt_sign_ref_def
        bcrypt_hash_ref_def message_def)

theorem unset_secret_behaviour_witness:
  "jwt_sign_ref (Payload_userId 8) None 3600 9 = Inl ''secretOrPrivateKey must have a value'' \<and>
   register_route jwt_sign_ref bcrypt_hash_ref None 9 ''pepper'' 8
     [\<lparr>u_id = 7, u_name = ''Ann'', u_email = ''a@x.com'', u_password = ''$salt$secret1'', u_cart = []\<rparr>]
     \<lparr>b_name = Some ''Bob'', b_phoneNumber = None, b_city = None,
      b_email = Some ''b@x.com'', b_password = Some ''hunter22''\<rparr> =
   ([\<lparr>u_id = 7, u_name = ''Ann'', u_email = ''a@x.com'', u_password = ''$salt$secret1'', u_cart = []\<rparr>,
     \<lparr>u_id = 8, u_name = ''Bob'', u_email = ''b@x.com'', u_password = ''$pepper$hunter22'', u_cart = []\<rparr>],
    \<lparr>status = 500,
     body = JObj [(''message'', JStr ''An error occurred. Please try again later.'')]\<rparr>) \<and>
   register_route (\<lambda>p s ttl t. if s = None then jwt_sign_ref p s ttl t else Inr ''other'')
     bcrypt_hash_ref None 9 ''pepper'' 8
     [\<lparr>u_id = 7, u_name = ''Ann'', u_email = ''a@x.com'', u_password = ''$salt$secret1'', u_cart = []\<rparr>]
     \<lparr>b_name = Some ''Bob'', b_phoneNumber = None, b_city = None,
      b_email = Some ''b@x.com'', b_password = Some ''hunter22''\<rparr> =
   register_route jwt_sign_ref bcrypt_hash_ref None 9 ''pepper'' 8
     [\<lparr>u_id = 7, u_name = ''Ann'', u_email = ''a@x.com'', u_password = ''$salt$secret1'', u_cart = []\<rparr>]
     \<lparr>b_name = Some ''Bob'', b_phoneNumber = None, b_city = None,
      b_email = Some ''b@x.com'', b_password = Some ''hunter22''\<rparr> \<and>
   bcrypt_compare_js bcrypt_compare_ref (Some ''secret1'') (Some ''$salt$secret1'') = Inr True \<and>
   jwt_sign_ref (Payload_id 7) None 86400 9 = Inl ''secretOrPrivateKey must have a value'' \<and>
   login_route jwt_sign_ref bcrypt_compare_ref None 9
     [\<lparr>u_id = 7, u_name = ''Ann'', u_email = ''a@x.com'', u_password = ''$salt$secret1'', u_cart = []\<rparr>]
     \<lparr>b_name = None, b_phoneNumber = None, b_city = None,
      b_email = Some ''a@x.com'', b_password = Some ''secret1''\<rparr> =
     \<lparr>status = 500, body = JObj [(''error'', JStr ''secretOrPrivateKey must have a value'')]\<rparr>"
proof -
  have s: "jwt_sign_ref (Payload_userId 8) None 3600 9 = Inl ''secretOrPrivateKey must have a value''"
    "jwt_sign_ref (Payload_id 7) None 86400 9 = Inl ''secretOrPrivateKey must have a value''"
    by (simp_all add: jwt_sign_ref_def)
  have c: "bcrypt_compare_js bcrypt_compare_ref (Some ''secret1'') (Some ''$salt$secret1'') = Inr True"
    by (simp add: bcrypt_compare_ref_def)
  have a: "\<forall>p ttl t. jwt_sign_ref p None ttl t =
      (\<lambda>p s ttl t. if s = None then jwt_sign_ref p s ttl t else Inr ''other'') p None ttl t"
    by simp
  show ?thesis
    using s c a
      unset_secret_behaviour [where sign = jwt_sign_ref and hash = bcrypt_hash_ref
        and sign' = "\<lambda>p s ttl t. if s = None then jwt_sign_ref p s ttl t else Inr ''other''"
        and secret = None
        and compare = bcrypt_compare_ref and now = 9 and salt = "''pepper''" and new_id = 8
        and db = "[\<lparr>u_id = 7, u_name = ''Ann'', u_email = ''a@x.com'',
                     u_password = ''$salt$secret1'', u_cart = []\<rparr>]"
        and e = "''secretOrPrivateKey must have a value''"
        and b = "\<lparr>b_name = Some ''Bob'', b_phoneNumber = None, b_city = None,
                   b_email = Some ''b@x.com'', b_password = Some ''hunter22''\<rparr>"]
      unset_secret_behaviour [where sign = jwt_sign_ref and hash = bcrypt_hash_ref
        and sign' = jwt_sign_ref and secret = None
        and compare = bcrypt_compare_ref and now = 9 and salt = "''pepper''" and new_id = 8
        and db = "[\<lparr>u_id = 7, u_name = ''Ann'', u_email = ''a@x.com'',
                     u_password = ''$salt$secret1'', u_cart = []\<rparr>]"
        and u = "\<lparr>u_id = 7, u_name = ''Ann'', u_email = ''a@x.com'',
                   u_password = ''$salt$secret1'', u_cart = []\<rparr>"
        and e' = "''secretOrPrivateKey must have a value''"
        and b = "\<lparr>b_name = None, b_phoneNumber = None, b_city = None,
                   b_email = Some ''a@x.com'', b_password = Some ''secret1''\<rparr>"]
    by (simp add: register_route_unset_ref_Bob)
qed

text \<open>
  C7 as stated fails in \<^verbatim>\<open>register/route.js\<close> and \<^verbatim>\<open>login/route.js\<close>: with \<^verbatim>\<open>JWT_SECRET\<close>
  unset, Ann's registration is carried out up to \<^verbatim>\<open>jwt.sign\<close>, which throws, and the
  request is answered 500 with Ann stored; her login afterwards is answered 500 in the
  same way. The unset secret is met on each request, by the \<^verbatim>\<open>catch\<close> of the handler.
\<close>

theorem unset_secret_per_request:
  "register_route jwt_sign_ref bcrypt_hash_ref None 0 ''salt'' 7 []
     \<lparr>b_name = Some ''Ann'', b_phoneNumber = None, b_city = None,
      b_email = Some ''a@x.com'', b_password = Some ''secret1''\<rparr> =
   ([\<lparr>u_id = 7, u_name = ''Ann'', u_email = ''a@x.com'', u_password = ''$salt$secret1'', u_cart = []\<rparr>],
    \<lparr>status = 500,
     body = JObj [(''message'', JStr ''An error occurred. Please try again later.'')]\<rparr>) \<and>
   login_route jwt_sign_ref bcrypt_compare_ref None 60
     [\<lparr>u_id = 7, u_name = ''Ann'', u_email = ''a@x.com'', u_password = ''$salt$secret1'', u_cart = []\<rparr>]
     \<lparr>b_name = None, b_phoneNumber = None, b_city = None,
      b_email = Some ''a@x.com'', b_password = Some ''secret1''\<rparr> =
     \<lparr>status = 500, body = JObj [(''error'', JStr ''secretOrPrivateKey must have a value'')]\<rparr>"
  by (simp add: register_route_def login_route_def save_user_def validate_user_def
        jwt_sign_ref_def bcrypt_hash_ref_def bcrypt_compare_ref_def message_def)

section \<open>The carts that the handlers can reach\<close>

lemma cart_route_store: "fst (cart_route verify secret now products db req) = db"
  by (simp add: cart_route_def cart_handler_def split: sum.splits option.splits)

lemma register_route_carts:
  "list_all (\<lambda>u. Q (u_cart u)) db \<Longrightarrow> Q [] \<Longrightarrow>
   list_all (\<lambda>u. Q (u_cart u)) (fst (register_route sign hash secret now salt new_id db b))"
  by (cases "fst (register_route sign hash secret now salt new_id db b) = db")
     (auto dest!: register_route_persists)

lemma store_after_carts:
  assumes "list_all (\<lambda>u. Q (u_cart u)) (st_users s)" and "Q []"
  shows "list_all (\<lambda>u. Q (u_cart u)) (st_users (store_after sign verify hash secret s c))"
    and "st_carts (store_after sign verify hash secret s c) = st_carts s"
  using assms by (cases c; simp add: cart_route_store register_route_carts)+

text \<open>
  Starting from the empty store, whatever calls are made, every embedded cart is empty
  and there is no cart document: the only \<^verbatim>\<open>save()\<close> of a user with a cart is the one of
  \<^verbatim>\<open>register/route.js\<close>, which gives the new user no line item.
\<close>

lemma reachable_carts_empty:
  "list_all (\<lambda>u. u_cart u = []) (st_users s) \<Longrightarrow> st_carts s = [] \<Longrightarrow>
   list_all (\<lambda>u. u_cart u = []) (st_users (foldl (store_after sign verify hash secret) s cs)) \<and>
   st_carts (foldl (store_after sign verify hash secret) s cs) = []"
proof (induction cs arbitrary: s)
  case Nil
  then show ?case by simp
next
  case (Cons c cs)
  from store_after_carts [where Q = "\<lambda>items. items = []", OF Cons.prems(1)] Cons.prems(2)
  show ?case
    by (simp add: Cons.IH)
qed





subsection \<open>What schema validation alone asks of a cart\<close>

text \<open>
  The invariant rests on the handlers, not on the schemas. Validation of a user asks of
  a line item a product reference and a quantity of at least 1; it would let \<^verbatim>\<open>save()\<close>
  persist a cart with a product in two line items and with the quantity 3/2. The schema
  of the standalone cart document asks only that its fields are present.
\<close>

lemma save_user_cart_items:
  "save_user db u = Inr db' \<Longrightarrow>
     db' = db @ [u] \<and>
     (\<forall>i \<in> set (u_cart u). productId i \<noteq> None \<and> (\<exists>q. quantity i = Some q \<and> 1 \<le> q))"
  by (auto simp: save_user_def validate_user_def validate_cart_item_def list_all_iff
           split: if_splits option.splits)

lemma save_user_duplicate_product:
  "save_user []
     \<lparr>u_id = 7, u_name = ''Ann'', u_email = ''a@x.com'', u_password = ''$salt$secret1'',
      u_cart = [\<lparr>item_id = 1, productId = Some 3, quantity = Some (3 / 2)\<rparr>,
                \<lparr>item_id = 2, productId = Some 3, quantity = Some 1\<rparr>]\<rparr> =
     Inr [\<lparr>u_id = 7, u_name = ''Ann'', u_email = ''a@x.com'', u_password = ''$salt$secret1'',
           u_cart = [\<lparr>item_id = 1, productId = Some 3, quantity = Some (3 / 2)\<rparr>,
                     \<lparr>item_id = 2, productId = Some 3, quantity = Some 1\<rparr>]\<rparr>]"
  by (simp add: save_user_def validate_user_def validate_cart_item_def)

lemma cart_doc_zero_quantity:
  "validate_cart_doc
     \<lparr>cd_userId = Some 7,
      cd_items = [\<lparr>cd_productId = Some 3, cd_quantity = Some 0, cd_price = Some 40\<rparr>],
      cd_totalAmount = Some 0\<rparr>"
  by (simp add: validate_cart_doc_def validate_cart_doc_item_def)

end
